theory Spec2Isabelle
  imports Main
begin

section \<open>Platform primitives used by the worker\<close>

text \<open>
  The worker runs on a JavaScript platform. The functions of that platform which the
  source calls are modelled here once. Strings are lists of 8-bit characters, so a
  string is also a byte string (what \<open>String.fromCharCode\<close> over a \<open>Uint8Array\<close>
  gives); JavaScript strings with code units above 255 are outside the model (\<open>btoa\<close>
  throws on them). Numbers are integers: the code only handles epoch seconds, epoch
  milliseconds and counters.

  The cryptographic functions (HMAC-SHA256 and SHA-256 of Web Crypto), the JSON parser and
  the external HTTP services are parameters of the functions that use them: every theorem
  holds for each value of these parameters.
\<close>

subsection \<open>Strings\<close>

text \<open>\<open>s.split(c)\<close> for a one-character separator: never the empty list.\<close>

fun split_on :: "char \<Rightarrow> string \<Rightarrow> string list" where
  "split_on c [] = [[]]"
| "split_on c (x # xs) =
     (if x = c then [] # split_on c xs
      else (case split_on c xs of
              [] \<Rightarrow> [[x]]
            | w # ws \<Rightarrow> (x # w) # ws))"

text \<open>\<open>s.startsWith(p)\<close>.\<close>

definition startsWith :: "string \<Rightarrow> string \<Rightarrow> bool" where
  "startsWith p s = (take (length p) s = p)"

text \<open>\<open>s.replace(pat, rep)\<close> with a string pattern: the first occurrence only.\<close>

fun replace_first :: "string \<Rightarrow> string \<Rightarrow> string \<Rightarrow> string" where
  "replace_first pat rep [] = (if pat = [] then rep else [])"
| "replace_first pat rep (x # xs) =
     (if startsWith pat (x # xs) then rep @ drop (length pat) (x # xs)
      else x # replace_first pat rep xs)"

text \<open>\<open>s.replace(/c/g, d)\<close> and \<open>s.replace(/c/g, '')\<close> for a one-character pattern.\<close>

definition replace_all :: "char \<Rightarrow> char \<Rightarrow> string \<Rightarrow> string" where
  "replace_all c d s = map (\<lambda>x. if x = c then d else x) s"

definition remove_all :: "char \<Rightarrow> string \<Rightarrow> string" where
  "remove_all c s = filter (\<lambda>x. x \<noteq> c) s"

text \<open>JavaScript truthiness of an optional string, and \<open>a || b\<close> on such values.\<close>

definition truthy :: "string option \<Rightarrow> bool" where
  "truthy v = (case v of None \<Rightarrow> False | Some s \<Rightarrow> s \<noteq> [])"

definition js_or :: "string option \<Rightarrow> string option \<Rightarrow> string option" where
  "js_or a b = (if truthy a then a else b)"

text \<open>Decimal rendering of an integer, as a template literal or \<open>JSON.stringify\<close> prints it.\<close>

function digits :: "int \<Rightarrow> string" where
  "digits n = (if n < 10 then [char_of (48 + n)] else digits (n div 10) @ [char_of (48 + n mod 10)])"
  by pat_completeness auto
termination
  by (relation "measure nat") auto

declare digits.simps [simp del]

definition show_int :: "int \<Rightarrow> string" where
  "show_int i = (if i < 0 then CHR ''-'' # digits (- i) else digits i)"

text \<open>\<open>new TextEncoder().encode(s)\<close>: UTF-8 of the code units 0..255.\<close>

definition utf8_char :: "char \<Rightarrow> string" where
  "utf8_char c =
     (let n = of_char c :: int
      in if n < 128 then [c] else [char_of (192 + n div 64), char_of (128 + n mod 64)])"

definition utf8_encode :: "string \<Rightarrow> string" where
  "utf8_encode s = concat (map utf8_char s)"

subsection \<open>Base64: \<open>btoa\<close> and \<open>atob\<close>\<close>

definition b64chars :: string where
  "b64chars = ''ABCDEFGHIJKLMNOPQRSTUVWXYZabcdefghijklmnopqrstuvwxyz0123456789+/''"

definition b64char :: "int \<Rightarrow> char" where
  "b64char n = b64chars ! nat (n mod 64)"

fun btoa :: "string \<Rightarrow> string" where
  "btoa [] = []"
| "btoa [a] =
     (let n = of_char a * 65536 :: int
      in [b64char (n div 262144), b64char (n div 4096), CHR ''='', CHR ''=''])"
| "btoa [a, b] =
     (let n = of_char a * 65536 + of_char b * 256 :: int
      in [b64char (n div 262144), b64char (n div 4096), b64char (n div 64), CHR ''=''])"
| "btoa (a # b # c # rest) =
     (let n = of_char a * 65536 + of_char b * 256 + of_char c :: int
      in b64char (n div 262144) # b64char (n div 4096) # b64char (n div 64) # b64char n
         # btoa rest)"

definition b64index :: "char \<Rightarrow> int option" where
  "b64index c =
     (let n = of_char c :: int
      in if 65 \<le> n \<and> n \<le> 90 then Some (n - 65)
         else if 97 \<le> n \<and> n \<le> 122 then Some (n - 71)
         else if 48 \<le> n \<and> n \<le> 57 then Some (n + 4)
         else if n = 43 then Some 62
         else if n = 47 then Some 63
         else None)"

fun b64decode :: "int list \<Rightarrow> string" where
  "b64decode (a # b # c # d # rest) =
     (let n = ((a * 64 + b) * 64 + c) * 64 + d
      in char_of (n div 65536) # char_of (n div 256) # char_of n # b64decode rest)"
| "b64decode [a, b, c] =
     (let n = (a * 64 + b) * 64 + c in [char_of (n div 1024), char_of (n div 4)])"
| "b64decode [a, b] = [char_of ((a * 64 + b) div 16)]"
| "b64decode _ = []"

definition ascii_whitespace :: "char \<Rightarrow> bool" where
  "ascii_whitespace c = (c \<in> {CHR 0x09, CHR 0x0A, CHR 0x0C, CHR 0x0D, CHR 0x20})"

definition strip_padding :: "string \<Rightarrow> string" where
  "strip_padding d =
     (if length d mod 4 = 0 \<and> d \<noteq> [] \<and> last d = CHR ''=''
      then (if butlast d \<noteq> [] \<and> last (butlast d) = CHR ''='' then butlast (butlast d)
            else butlast d)
      else d)"

text \<open>
  \<open>atob\<close> is the platform's forgiving base64 decoder: white space is dropped, one or two
  trailing \<open>=\<close> are dropped when the length is a multiple of four, and the call throws
  (\<open>None\<close>) on a length of 1 modulo 4 or on a character outside the alphabet.
\<close>

definition atob :: "string \<Rightarrow> string option" where
  "atob s =
     (let d = strip_padding (filter (\<lambda>c. \<not> ascii_whitespace c) s)
      in if length d mod 4 = 1 then None
         else map_option b64decode (those (map b64index d)))"

section \<open>utils.ts: the credential\<close>

record JWTPayload =
  sub :: string
  plan :: string
  iat :: int
  exp :: int

text \<open>\<open>JSON.stringify\<close> of a string: the quoted form with the escapes of the standard.\<close>

definition hex_digit :: "int \<Rightarrow> char" where
  "hex_digit n = ''0123456789abcdef'' ! nat (n mod 16)"

definition json_escape_char :: "char \<Rightarrow> string" where
  "json_escape_char c =
     (let n = of_char c :: int
      in if n = 34 then [CHR 0x5C, CHR 0x22]
         else if n = 92 then [CHR 0x5C, CHR 0x5C]
         else if n = 8 then [CHR 0x5C, CHR ''b'']
         else if n = 12 then [CHR 0x5C, CHR ''f'']
         else if n = 10 then [CHR 0x5C, CHR ''n'']
         else if n = 13 then [CHR 0x5C, CHR ''r'']
         else if n = 9 then [CHR 0x5C, CHR ''t'']
         else if n < 32 then [CHR 0x5C, CHR ''u'', CHR ''0'', CHR ''0'', hex_digit (n div 16), hex_digit n]
         else [c])"

definition json_string :: "string \<Rightarrow> string" where
  "json_string s = CHR 0x22 # concat (map json_escape_char s) @ [CHR 0x22]"

text \<open>\<open>JSON.stringify({ alg: 'HS256', typ: 'JWT' })\<close> and \<open>JSON.stringify(payload)\<close>.\<close>

definition stringify_header :: string where
  \<open>stringify_header = ''{"alg":"HS256","typ":"JWT"}''\<close>

definition stringify_payload :: "JWTPayload \<Rightarrow> string" where
  \<open>stringify_payload p =
     ''{"sub":'' @ json_string (sub p) @ '',"plan":'' @ json_string (plan p)
       @ '',"iat":'' @ show_int (iat p) @ '',"exp":'' @ show_int (exp p) @ ''}''\<close>

text \<open>
  \<open>generateJWT\<close>. The parameter \<open>hmac key msg\<close> is HMAC-SHA256 of Web Crypto on byte
  strings. \<open>importKey\<close> rejects a key of length zero, so an empty secret makes the call
  throw (\<open>None\<close>). The header and the body are the output of \<open>btoa\<close> as it is; only the
  signature goes through the three \<open>replace\<close> calls.
\<close>

definition generateJWT :: "(string \<Rightarrow> string \<Rightarrow> string) \<Rightarrow> JWTPayload \<Rightarrow> string \<Rightarrow> string option" where
  "generateJWT hmac payload secret =
     (let header = btoa stringify_header;
          body = btoa (stringify_payload payload);
          unsigned = header @ ''.'' @ body
      in if utf8_encode secret = [] then None
         else
           let signature = hmac (utf8_encode secret) (utf8_encode unsigned);
               sigBase64 = remove_all CHR ''='' (replace_all CHR ''/'' CHR ''_''
                             (replace_all CHR ''+'' CHR ''-'' (btoa signature)))
           in Some (unsigned @ ''.'' @ sigBase64))"

text \<open>
  \<open>verifyJWT\<close> of utils.ts. \<open>const [h, b, s] = token.split('.')\<close> leaves \<open>s\<close> undefined
  when there are fewer than three parts, and \<open>s.replace\<close> then throws; every throw is
  caught and gives \<open>null\<close>. \<open>parse\<close> is \<open>JSON.parse\<close> read at the type of the payload
  (\<open>None\<close> when it throws or yields a falsy value such as \<open>null\<close>, which the
  routes treat like a failed verification). There is no comparison with the clock.
\<close>

definition verifyJWT ::
  "(string \<Rightarrow> string \<Rightarrow> string) \<Rightarrow> (string \<Rightarrow> JWTPayload option) \<Rightarrow> string \<Rightarrow> string \<Rightarrow> JWTPayload option" where
  "verifyJWT hmac parse token secret =
     (case split_on CHR ''.'' token of
        h # b # s # _ \<Rightarrow>
          if utf8_encode secret = [] then None
          else (case atob (replace_all CHR ''_'' CHR ''/'' (replace_all CHR ''-'' CHR ''+'' s)) of
                  None \<Rightarrow> None
                | Some sig \<Rightarrow>
                    if hmac (utf8_encode secret) (utf8_encode (h @ ''.'' @ b)) \<noteq> sig then None
                    else (case atob b of None \<Rightarrow> None | Some js \<Rightarrow> parse js))
      | _ \<Rightarrow> None)"

section \<open>auth.ts: the sibling verifier\<close>

text \<open>
  Modelled from the spec: \<open>jwtVerify\<close> belongs to the package \<open>jose\<close>, which is not part
  of the repository. The spec says of this path that it checks both the signature and the
  \<open>exp\<close> field. The model accepts a token of exactly three segments whose signature is
  the HMAC of \<open>header.payload\<close> and whose payload parses, and rejects it once \<open>exp\<close>
  is not after the clock (\<open>now\<close>, in epoch seconds).
\<close>

definition jwtVerify ::
  "(string \<Rightarrow> string \<Rightarrow> string) \<Rightarrow> (string \<Rightarrow> JWTPayload option) \<Rightarrow> int \<Rightarrow> string \<Rightarrow> string \<Rightarrow> JWTPayload option" where
  "jwtVerify hmac parse now token key =
     (case split_on CHR ''.'' token of
        [h, b, s] \<Rightarrow>
          if key = [] then None
          else (case atob (replace_all CHR ''_'' CHR ''/'' (replace_all CHR ''-'' CHR ''+'' s)) of
                  None \<Rightarrow> None
                | Some sig \<Rightarrow>
                    if hmac key (utf8_encode (h @ ''.'' @ b)) \<noteq> sig then None
                    else (case atob (replace_all CHR ''_'' CHR ''/'' (replace_all CHR ''-'' CHR ''+'' b)) of
                            None \<Rightarrow> None
                          | Some js \<Rightarrow>
                              (case parse js of
                                 None \<Rightarrow> None
                               | Some p \<Rightarrow> if exp p \<le> now then None else Some p)))
      | _ \<Rightarrow> None)"

text \<open>
  \<open>verifyJWT\<close> of auth.ts: the first segment must be the fixed header, then \<open>jwtVerify\<close>
  decides; every throw gives \<open>null\<close>.
\<close>

definition auth_verifyJWT ::
  "(string \<Rightarrow> string \<Rightarrow> string) \<Rightarrow> (string \<Rightarrow> JWTPayload option) \<Rightarrow> int \<Rightarrow> string \<Rightarrow> string \<Rightarrow> JWTPayload option" where
  "auth_verifyJWT hmac parse now token secret =
     (case split_on CHR ''.'' token of
        header # _ \<Rightarrow>
          if header \<noteq> ''eyJhbGciOiJIUzI1NiIsInR5cCI6IkpXVCJ9'' then None
          else jwtVerify hmac parse now token (utf8_encode secret)
      | [] \<Rightarrow> None)"

section \<open>The tables\<close>

text \<open>
  The rows of \<open>plan_quotas\<close> and \<open>users\<close> follow the schema of the repository; the
  table \<open>device_sessions\<close> has no schema there, its columns are those of the
  \<open>INSERT\<close> in \<open>getOrCreateDeviceSession\<close>. A table is the list of its rows in
  insertion order, and \<open>.first()\<close> is the first row that matches.
\<close>

record plan_quota =
  q_plan :: string
  q_daily_limit :: int
  q_monthly_limit :: int
  q_credits :: int
  q_max_batch_size :: int
  q_rate_limit_per_minute :: int
  q_features :: "string option"

record user =
  u_id :: string
  u_email :: string
  u_license_key :: string
  u_plan :: string
  u_status :: string
  u_created_at :: int
  u_expires_at :: int
  u_last_login :: "int option"
  u_total_requests :: int
  u_provider_subscription_id :: "string option"
  u_payment_provider :: "string option"

record device_session =
  ds_id :: string
  ds_user_id :: string
  ds_license_key :: string
  ds_device_fingerprint :: string
  ds_device_hash :: string
  ds_browser_agent :: string
  ds_created_at :: int
  ds_last_used :: int
  ds_daily_requests :: int
  ds_daily_reset_at :: int
  ds_is_active :: int

record database =
  users :: "user list"
  plan_quotas :: "plan_quota list"
  device_sessions :: "device_session list"

text \<open>The \<open>CHECK\<close> constraints of \<open>users\<close>.\<close>

definition valid_plans :: "string set" where
  "valid_plans = {''free_trial'', ''monthly'', ''yearly'', ''lifetime''}"

definition valid_statuses :: "string set" where
  "valid_statuses = {''active'', ''suspended'', ''expired''}"

text \<open>
  What the storage layer checks on a row of \<open>users\<close> apart from uniqueness: the two
  \<open>CHECK\<close> constraints and the foreign key of \<open>plan\<close> into \<open>plan_quotas\<close>.
\<close>

definition user_row_ok :: "database \<Rightarrow> user \<Rightarrow> bool" where
  "user_row_ok db u =
     (u_plan u \<in> valid_plans \<and> u_status u \<in> valid_statuses
      \<and> u_plan u \<in> set (map q_plan (plan_quotas db)))"

text \<open>
  A plain \<open>INSERT INTO users\<close>: it fails (\<open>None\<close>, the statement throws and nothing is
  written) when the row breaks a constraint or repeats an \<open>id\<close>, an \<open>email\<close> or a
  \<open>license_key\<close>.
\<close>

definition insert_user :: "user \<Rightarrow> database \<Rightarrow> database option" where
  "insert_user u db =
     (if \<not> user_row_ok db u then None
      else if u_id u \<in> set (map u_id (users db)) then None
      else if u_email u \<in> set (map u_email (users db)) then None
      else if u_license_key u \<in> set (map u_license_key (users db)) then None
      else Some (db\<lparr>users := users db @ [u]\<rparr>))"

text \<open>
  \<open>INSERT ... ON CONFLICT(license_key) DO UPDATE SET plan=excluded.plan,
  expires_at=excluded.expires_at\<close>: a row with the same \<open>license_key\<close> takes the new
  plan and expiry; otherwise the statement is the plain insert.
\<close>

definition upsert_user :: "user \<Rightarrow> database \<Rightarrow> database option" where
  "upsert_user u db =
     (if \<not> user_row_ok db u then None
      else if u_license_key u \<in> set (map u_license_key (users db))
      then Some (db\<lparr>users := map (\<lambda>r. if u_license_key r = u_license_key u
                                         then r\<lparr>u_plan := u_plan u, u_expires_at := u_expires_at u\<rparr>
                                         else r) (users db)\<rparr>)
      else insert_user u db)"

section \<open>index.ts: device sessions\<close>

definition MAX_DEVICES_PER_LICENSE :: nat where
  "MAX_DEVICES_PER_LICENSE = 2"

datatype js_error = DEVICE_LIMIT_REACHED

text \<open>
  What \<open>getOrCreateDeviceSession\<close> returns: the row it found (with \<open>daily_requests\<close>
  set to 0 in the object when the day has changed), or the object
  \<open>{ id, daily_requests: 0 }\<close> for a new row.
\<close>

datatype session_obj = ExistingRow device_session | NewSession string

fun session_id :: "session_obj \<Rightarrow> string" where
  "session_id (ExistingRow r) = ds_id r"
| "session_id (NewSession i) = i"

fun session_daily_requests :: "session_obj \<Rightarrow> int" where
  "session_daily_requests (ExistingRow r) = ds_daily_requests r"
| "session_daily_requests (NewSession i) = 0"

text \<open>
  \<open>getOrCreateDeviceSession\<close>. \<open>sha256\<close> is the hex digest of Web Crypto, \<open>secret\<close> is
  \<open>env.JWT_SECRET\<close>, \<open>uuid\<close> is the value \<open>crypto.randomUUID()\<close> returns in this
  call, \<open>now\<close> and \<open>today\<close> are the clock and the local midnight in epoch seconds.
  The function returns the table after its writes together with its result; the
  \<open>throw\<close> is the left injection.
\<close>

definition getOrCreateDeviceSession ::
  "(string \<Rightarrow> string) \<Rightarrow> string \<Rightarrow> string \<Rightarrow> int \<Rightarrow> int \<Rightarrow> string \<Rightarrow> string \<Rightarrow> string \<Rightarrow> string
     \<Rightarrow> device_session list \<Rightarrow> device_session list \<times> (js_error + session_obj)" where
  "getOrCreateDeviceSession sha256 secret uuid now today userId licenseKey clientFingerprint agent sessions =
     (let deviceHash = sha256 (clientFingerprint @ agent @ userId @ secret)
      in case find (\<lambda>s. ds_user_id s = userId \<and> ds_device_hash s = deviceHash) sessions of
           Some existing \<Rightarrow>
             if ds_daily_reset_at existing < today
             then (map (\<lambda>s. if ds_id s = ds_id existing
                             then s\<lparr>ds_daily_requests := 0, ds_daily_reset_at := today, ds_last_used := now\<rparr>
                             else s) sessions,
                   Inr (ExistingRow (existing\<lparr>ds_daily_requests := 0\<rparr>)))
             else (map (\<lambda>s. if ds_id s = ds_id existing then s\<lparr>ds_last_used := now\<rparr> else s) sessions,
                   Inr (ExistingRow existing))
         | None \<Rightarrow>
             if length (filter (\<lambda>s. ds_user_id s = userId \<and> ds_is_active s = 1) sessions)
                  \<ge> MAX_DEVICES_PER_LICENSE
             then (sessions, Inl DEVICE_LIMIT_REACHED)
             else (sessions @
                     [\<lparr>ds_id = uuid, ds_user_id = userId, ds_license_key = licenseKey,
                       ds_device_fingerprint = clientFingerprint, ds_device_hash = deviceHash,
                       ds_browser_agent = agent, ds_created_at = now, ds_last_used = now,
                       ds_daily_requests = 0, ds_daily_reset_at = today, ds_is_active = 1\<rparr>],
                   Inr (NewSession uuid)))"

definition incrementDeviceUsage :: "string \<Rightarrow> device_session list \<Rightarrow> device_session list" where
  "incrementDeviceUsage i sessions =
     map (\<lambda>s. if ds_id s = i then s\<lparr>ds_daily_requests := ds_daily_requests s + 1\<rparr> else s) sessions"

section \<open>index.ts: the routes\<close>

text \<open>
  A response is its HTTP status and its JSON body. \<open>errorResponse(msg, status)\<close> is
  the body \<open>{ success: false, error: msg }\<close>. \<open>Thrown\<close> stands for the body the
  \<open>catch\<close> of a route builds from the message of an exception of the platform (a
  failed statement, an unreadable body, a failed \<open>fetch\<close>), always with status 500.
  \<open>AuthBody\<close> carries \<open>token\<close>, \<open>email\<close>, \<open>plan\<close>, \<open>quota\<close> and
  \<open>expiry_date\<close>, the last as the epoch seconds it is printed from.
\<close>

record stats =
  daily_used :: int
  daily_limit :: int
  daily_remaining :: int
  monthly_limit :: int
  max_batch_size :: int
  device_used :: int
  can_use :: bool
  stats_plan :: string

datatype body =
    ErrorBody string
  | Thrown
  | AuthBody string string string "plan_quota option" int
  | StatsBody stats

datatype response = Response nat body

definition errorResponse :: "string \<Rightarrow> nat \<Rightarrow> response" where
  "errorResponse msg st = Response st (ErrorBody msg)"

definition jsonResponse :: "body \<Rightarrow> response" where
  "jsonResponse data = Response 200 data"

text \<open>The environment bindings read by the routes.\<close>

record env =
  JWT_SECRET :: string
  DODO_WEBHOOK_SECRET :: string
  RESEND_API_KEY :: string

text \<open>
  \<open>new Date(t * 1000).toISOString()\<close> throws outside the range of JavaScript dates.
\<close>

definition date_in_range :: "int \<Rightarrow> bool" where
  "date_in_range t = (\<bar>t * 1000\<bar> \<le> 8640000000000000)"

subsection \<open>\<open>POST /api/auth/validate\<close>\<close>

text \<open>
  The request body after \<open>const { license_key } = await req.json()\<close>: the statement
  throws (the body is not JSON, or it is \<open>null\<close>), or it gives the \<open>license_key\<close> of
  the body when it has one.
\<close>

datatype validate_request = BadJson | Json "string option"

text \<open>An answer of the billing provider: the call threw, or it returned a value.\<close>

datatype 'a fetched = Threw | Got 'a

record lic_data =
  metadata_plan_type :: "string option"
  lic_customer_email :: "string option"

definition default_duration :: "string \<Rightarrow> int" where
  "default_duration p =
     (if p = ''lifetime'' then 100 * 365 * 86400
      else if p = ''yearly'' then 365 * 86400
      else 30 * 86400)"

text \<open>
  The route. \<open>dodo_validate\<close> and \<open>dodo_license\<close> are the two calls to the billing
  provider for a key (\<open>Got ok\<close> carries \<open>dodo.ok\<close>), \<open>uuid\<close> is
  \<open>crypto.randomUUID()\<close>, \<open>now\<close> is \<open>Math.floor(Date.now()/1000)\<close> and
  \<open>now_ms\<close> the later \<open>Date.now()\<close> of \<open>iat\<close>.
\<close>

definition validate ::
  "(string \<Rightarrow> string \<Rightarrow> string) \<Rightarrow> (string \<Rightarrow> bool fetched) \<Rightarrow> (string \<Rightarrow> lic_data fetched)
     \<Rightarrow> env \<Rightarrow> string \<Rightarrow> int \<Rightarrow> int \<Rightarrow> validate_request \<Rightarrow> database \<Rightarrow> response \<times> database" where
  "validate hmac dodo_validate dodo_license e uuid now now_ms req db =
     (case req of
        BadJson \<Rightarrow> (Response 500 Thrown, db)
      | Json lk \<Rightarrow>
          if \<not> truthy lk then (errorResponse ''License key required'' 400, db)
          else
            let license_key = the lk
            in case find (\<lambda>u. u_license_key u = license_key) (users db) of
                 Some local \<Rightarrow>
                   if u_status local \<noteq> ''active'' then (errorResponse ''License inactive'' 403, db)
                   else if u_expires_at local < now then (errorResponse ''License expired'' 403, db)
                   else
                     (case generateJWT hmac
                             \<lparr>sub = license_key, plan = u_plan local, iat = now_ms, exp = u_expires_at local\<rparr>
                             (JWT_SECRET e) of
                        None \<Rightarrow> (Response 500 Thrown, db)
                      | Some tok \<Rightarrow>
                          if \<not> date_in_range (u_expires_at local) then (Response 500 Thrown, db)
                          else (jsonResponse
                                  (AuthBody tok (u_email local) (u_plan local)
                                     (find (\<lambda>q. q_plan q = u_plan local) (plan_quotas db))
                                     (u_expires_at local)), db))
               | None \<Rightarrow>
                   (case dodo_validate license_key of
                      Threw \<Rightarrow> (Response 500 Thrown, db)
                    | Got ok \<Rightarrow>
                        if \<not> ok then (errorResponse ''Invalid license'' 403, db)
                        else
                          (case dodo_license license_key of
                             Threw \<Rightarrow> (Response 500 Thrown, db)
                           | Got licData \<Rightarrow>
                               let p = (if truthy (metadata_plan_type licData) then the (metadata_plan_type licData)
                                        else ''monthly'');
                                   em = (if truthy (lic_customer_email licData) then the (lic_customer_email licData)
                                         else ''user_'' @ take 6 license_key @ ''@zonkey.ai'');
                                   expires = now + default_duration p
                               in case upsert_user
                                         \<lparr>u_id = uuid, u_email = em, u_license_key = license_key, u_plan = p,
                                           u_status = ''active'', u_created_at = now, u_expires_at = expires,
                                           u_last_login = None, u_total_requests = 0,
                                           u_provider_subscription_id = None, u_payment_provider = None\<rparr> db of
                                    None \<Rightarrow> (Response 500 Thrown, db)
                                  | Some db' \<Rightarrow>
                                      (case generateJWT hmac
                                              \<lparr>sub = license_key, plan = p, iat = now_ms, exp = expires\<rparr>
                                              (JWT_SECRET e) of
                                         None \<Rightarrow> (Response 500 Thrown, db')
                                       | Some tok \<Rightarrow>
                                           if \<not> date_in_range expires then (Response 500 Thrown, db')
                                           else (jsonResponse
                                                   (AuthBody tok em p
                                                      (find (\<lambda>q. q_plan q = p) (plan_quotas db'))
                                                      expires), db')))))"

subsection \<open>The admission steps shared by the metered routes\<close>

text \<open>The headers a metered route reads.\<close>

record api_request =
  Authorization :: "string option"
  X_Device_ID :: "string option"
  X_Device_Agent :: "string option"

text \<open>\<open>req.headers.get('Authorization')?.replace('Bearer ','') || ''\<close>.\<close>

definition bearer_token :: "api_request \<Rightarrow> string" where
  "bearer_token r = (case Authorization r of None \<Rightarrow> [] | Some a \<Rightarrow> replace_first ''Bearer '' [] a)"

text \<open>\<open>req.headers.get(h) || ''\<close>.\<close>

definition header_or_empty :: "string option \<Rightarrow> string" where
  "header_or_empty h = (case h of None \<Rightarrow> [] | Some v \<Rightarrow> v)"

text \<open>
  \<open>SELECT SUM(daily_requests) ... WHERE user_id=? AND daily_reset_at>=?\<close> followed by
  \<open>total?.t || 0\<close>: the sum over the matching rows, 0 when there is none.
\<close>

definition dailyUsage :: "string \<Rightarrow> int \<Rightarrow> device_session list \<Rightarrow> int" where
  "dailyUsage userId today sessions =
     sum_list (map ds_daily_requests
       (filter (\<lambda>s. ds_user_id s = userId \<and> ds_daily_reset_at s \<ge> today) sessions))"

text \<open>\<open>x || d\<close> on a number: zero is falsy.\<close>

definition num_or :: "int \<Rightarrow> int \<Rightarrow> int" where
  "num_or x d = (if x = 0 then d else x)"

text \<open>\<open>quota?.daily_limit || 10\<close>.\<close>

definition dailyLimit :: "plan_quota option \<Rightarrow> int" where
  "dailyLimit q = (case q of None \<Rightarrow> 10 | Some r \<Rightarrow> num_or (q_daily_limit r) 10)"

text \<open>
  The steps every metered route runs before its work, here as in
  \<open>POST /api/ai/generate-keywords\<close>: the token, the user, the device session, the
  quota row, the usage of the day and the comparison with the limit. \<open>today\<close> is the
  midnight computed inside \<open>getOrCreateDeviceSession\<close>, \<open>today2\<close> the one computed
  by the route. The result is the response that ends the request, or the admitted
  session together with the \<open>used\<close> and \<open>dailyLimit\<close> the route compared.
\<close>

definition generate_keywords_admission ::
  "(string \<Rightarrow> string \<Rightarrow> string) \<Rightarrow> (string \<Rightarrow> JWTPayload option) \<Rightarrow> (string \<Rightarrow> string) \<Rightarrow> env
     \<Rightarrow> string \<Rightarrow> int \<Rightarrow> int \<Rightarrow> int \<Rightarrow> api_request \<Rightarrow> database
     \<Rightarrow> (response + session_obj \<times> int \<times> int) \<times> database" where
  "generate_keywords_admission hmac parse sha256 e uuid now today today2 req db =
     (case verifyJWT hmac parse (bearer_token req) (JWT_SECRET e) of
        None \<Rightarrow> (Inl (errorResponse ''Unauthorized'' 401), db)
      | Some payload \<Rightarrow>
          (case find (\<lambda>u. u_license_key u = sub payload) (users db) of
             None \<Rightarrow> (Inl (errorResponse ''User not found'' 404), db)
           | Some u \<Rightarrow>
               (case getOrCreateDeviceSession sha256 (JWT_SECRET e) uuid now today (u_id u) (u_license_key u)
                       (header_or_empty (X_Device_ID req)) (header_or_empty (X_Device_Agent req))
                       (device_sessions db) of
                  (sessions', Inl DEVICE_LIMIT_REACHED) \<Rightarrow>
                    (Inl (errorResponse ''Device limit reached - Max 2 devices per license'' 403),
                     db\<lparr>device_sessions := sessions'\<rparr>)
                | (sessions', Inr session) \<Rightarrow>
                    let db' = db\<lparr>device_sessions := sessions'\<rparr>;
                        q = find (\<lambda>r. q_plan r = plan payload) (plan_quotas db');
                        used = dailyUsage (u_id u) today2 sessions';
                        lim = dailyLimit q
                    in if used \<ge> lim
                       then (Inl (errorResponse
                                    (''Daily limit exceeded - Used '' @ show_int used @ ''/'' @ show_int lim) 429),
                             db')
                       else (Inr (session, used, lim), db'))))"

subsection \<open>\<open>GET /api/user/stats\<close>\<close>

definition user_stats ::
  "(string \<Rightarrow> string \<Rightarrow> string) \<Rightarrow> (string \<Rightarrow> JWTPayload option) \<Rightarrow> (string \<Rightarrow> string) \<Rightarrow> env
     \<Rightarrow> string \<Rightarrow> int \<Rightarrow> int \<Rightarrow> int \<Rightarrow> api_request \<Rightarrow> database \<Rightarrow> response \<times> database" where
  "user_stats hmac parse sha256 e uuid now today today2 req db =
     (case verifyJWT hmac parse (bearer_token req) (JWT_SECRET e) of
        None \<Rightarrow> (errorResponse ''Unauthorized'' 401, db)
      | Some payload \<Rightarrow>
          (case find (\<lambda>u. u_license_key u = sub payload) (users db) of
             None \<Rightarrow> (errorResponse ''User not found'' 404, db)
           | Some u \<Rightarrow>
               (case getOrCreateDeviceSession sha256 (JWT_SECRET e) uuid now today (u_id u) (u_license_key u)
                       (header_or_empty (X_Device_ID req)) (header_or_empty (X_Device_Agent req))
                       (device_sessions db) of
                  (sessions', Inl DEVICE_LIMIT_REACHED) \<Rightarrow>
                    (errorResponse ''Device limit reached - Max 2 devices per license'' 403,
                     db\<lparr>device_sessions := sessions'\<rparr>)
                | (sessions', Inr session) \<Rightarrow>
                    let db' = db\<lparr>device_sessions := sessions'\<rparr>
                    in case find (\<lambda>r. q_plan r = plan payload) (plan_quotas db') of
                         None \<Rightarrow> (errorResponse ''Plan quota not found'' 404, db')
                       | Some q \<Rightarrow>
                           let totalUsed = dailyUsage (u_id u) today2 sessions';
                               lim = num_or (q_daily_limit q) 10
                           in (jsonResponse (StatsBody
                                 \<lparr>daily_used = totalUsed, daily_limit = lim,
                                   daily_remaining = max 0 (lim - totalUsed),
                                   monthly_limit = num_or (q_monthly_limit q) 1000,
                                   max_batch_size = num_or (q_max_batch_size q) 10,
                                   device_used = session_daily_requests session,
                                   can_use = (totalUsed < lim),
                                   stats_plan = plan payload\<rparr>), db'))))"

section \<open>webhook.ts\<close>

record product =
  p_plan :: string
  durationDays :: int
  p_name :: string

text \<open>
  The table \<open>PRODUCTS\<close>. A key that the object only inherits (such as
  \<open>constructor\<close>) yields a value without \<open>plan\<close>, on which the statement that
  follows throws before it writes: as for an unknown key, nothing is written.
\<close>

definition PRODUCTS :: "string \<Rightarrow> product option" where
  "PRODUCTS pid =
     (if pid = ''pdt_0NWZwZB3eia1vz1BCOw6C''
      then Some \<lparr>p_plan = ''monthly'', durationDays = 30, p_name = ''Monthly Pro''\<rparr>
      else if pid = ''pdt_0NWa2tSwTrvneWU2Yh423''
      then Some \<lparr>p_plan = ''yearly'', durationDays = 365, p_name = ''Yearly Pro''\<rparr>
      else if pid = ''pdt_0NWZx6IG1WxAoyOv9korR''
      then Some \<lparr>p_plan = ''lifetime'', durationDays = 36500, p_name = ''Lifetime Deal''\<rparr>
      else None)"

definition toUpperCase :: "string \<Rightarrow> string" where
  "toUpperCase s =
     map (\<lambda>c. let n = of_char c :: int in if 97 \<le> n \<and> n \<le> 122 then char_of (n - 32) else c) s"

text \<open>
  \<open>generateKey\<close>; \<open>random\<close> is the string of twelve characters the loop draws.
\<close>

definition generateKey :: "string \<Rightarrow> string \<Rightarrow> string" where
  "generateKey random p =
     ''AKH-'' @ toUpperCase p @ ''-'' @ take 4 random @ ''-'' @ take 4 (drop 4 random)
       @ ''-'' @ drop 8 random"




text \<open>
  The fields of \<open>data\<close> that \<open>processWebhookAsync\<close> reads: \<open>customer?.email\<close>,
  \<open>customer_email\<close>, \<open>product_id\<close>, \<open>lines?.[0]?.product_id\<close> and
  \<open>subscription_id\<close>.
\<close>

record webhook_data =
  wd_customer_dot_email :: "string option"
  wd_customer_email :: "string option"
  wd_product_id :: "string option"
  wd_lines0_product_id :: "string option"
  wd_subscription_id :: "string option"

definition failure_types :: "string set" where
  "failure_types = {''payment.failed'', ''subscription.cancelled'', ''subscription.payment_failed''}"

definition success_types :: "string set" where
  "success_types = {''payment.succeeded'', ''subscription.created'', ''subscription.active''}"

text \<open>
  \<open>UPDATE users SET plan = ?, status = 'active', expires_at = ?, payment_provider =
  'dodo_webhook' WHERE id = ?\<close>; the statement throws (\<open>None\<close>) when the new row breaks
  a constraint.
\<close>

definition renew_user :: "string \<Rightarrow> string \<Rightarrow> int \<Rightarrow> database \<Rightarrow> database option" where
  "renew_user uid p newExpiry db =
     (let upd = (\<lambda>u. u\<lparr>u_plan := p, u_status := ''active'', u_expires_at := newExpiry,
                         u_payment_provider := Some ''dodo_webhook''\<rparr>)
      in if \<exists>u \<in> set (users db). u_id u = uid \<and> \<not> user_row_ok db (upd u) then None
         else Some (db\<lparr>users := map (\<lambda>u. if u_id u = uid then upd u else u) (users db)\<rparr>))"

text \<open>
  \<open>processWebhookAsync\<close>. \<open>ty\<close> is \<open>payload.type\<close> and \<open>data\<close> is \<open>payload.data\<close>
  (\<open>None\<close> when it is missing or \<open>null\<close>: reading \<open>data.customer\<close> then throws).
  Every throw is caught and logged, and leaves the tables as they are. The e-mail that
  follows the write is an external call and changes no table.
\<close>

definition processWebhookAsync ::
  "string \<Rightarrow> string \<Rightarrow> int \<Rightarrow> string option \<Rightarrow> webhook_data option \<Rightarrow> database \<Rightarrow> database" where
  "processWebhookAsync uuid random now ty data db =
     (case data of
        None \<Rightarrow> db
      | Some webhookData \<Rightarrow>
          if ty \<in> Some ` failure_types
          then
            (let email = js_or (wd_customer_dot_email webhookData) (wd_customer_email webhookData)
             in if truthy email
                then db\<lparr>users := map (\<lambda>u. if u_email u = the email then u\<lparr>u_status := ''expired''\<rparr> else u)
                                      (users db)\<rparr>
                else db)
          else if ty \<in> Some ` success_types
          then
            (let email = js_or (wd_customer_dot_email webhookData) (wd_customer_email webhookData);
                 productId0 = js_or (wd_product_id webhookData) (wd_lines0_product_id webhookData);
                 productId = (if \<not> truthy productId0 \<and> truthy (wd_subscription_id webhookData)
                              then Some ''pdt_0NWZwZB3eia1vz1BCOw6C'' else productId0)
             in if \<not> truthy email \<or> \<not> truthy productId then db
                else
                  (case PRODUCTS (the productId) of
                     None \<Rightarrow> db
                   | Some productConfig \<Rightarrow>
                       let durationSeconds = durationDays productConfig * 86400
                       in case find (\<lambda>u. u_email u = the email) (users db) of
                            Some existingUser \<Rightarrow>
                              let currentExpiry = num_or (u_expires_at existingUser) 0;
                                  newExpiry = (if currentExpiry > now then currentExpiry else now)
                                                + durationSeconds
                              in (case renew_user (u_id existingUser) (p_plan productConfig) newExpiry db of
                                    None \<Rightarrow> db
                                  | Some db' \<Rightarrow> db')
                          | None \<Rightarrow>
                              let finalLicenseKey = generateKey random (p_plan productConfig);
                                  newExpiry = now + durationSeconds
                              in (case insert_user
                                         \<lparr>u_id = uuid, u_email = the email, u_license_key = finalLicenseKey,
                                           u_plan = p_plan productConfig, u_status = ''active'',
                                           u_created_at = now, u_expires_at = newExpiry,
                                           u_last_login = None, u_total_requests = 0,
                                           u_provider_subscription_id = None,
                                           u_payment_provider = Some ''dodo_webhook''\<rparr> db of
                                    None \<Rightarrow> db
                                  | Some db' \<Rightarrow> db')))
          else db)"







section \<open>Notions used by the properties, and the inputs of the examples\<close>


text \<open>
  Calls of \<open>getOrCreateDeviceSession\<close> for one \<open>(user, fingerprint, agent)\<close> in a row,
  each with its own \<open>uuid\<close>, clock and midnight; the results are collected in order.
\<close>

fun repeated_calls ::
  "(string \<Rightarrow> string) \<Rightarrow> string \<Rightarrow> string \<Rightarrow> string \<Rightarrow> string \<Rightarrow> string
     \<Rightarrow> (string \<times> int \<times> int) list \<Rightarrow> device_session list
     \<Rightarrow> device_session list \<times> (js_error + session_obj) list" where
  "repeated_calls sha256 secret userId licenseKey clientFingerprint agent [] sessions = (sessions, [])"
| "repeated_calls sha256 secret userId licenseKey clientFingerprint agent ((uuid, now, today) # cs) sessions =
     (case getOrCreateDeviceSession sha256 secret uuid now today userId licenseKey clientFingerprint agent
             sessions of
        (sessions1, r) \<Rightarrow>
          (case repeated_calls sha256 secret userId licenseKey clientFingerprint agent cs sessions1 of
             (sessions2, rs) \<Rightarrow> (sessions2, r # rs)))"

text \<open>
  Stand-ins for the two cryptographic parameters, used only where an example needs a
  concrete function.
\<close>

definition toy_sha256 :: "string \<Rightarrow> string" where
  "toy_sha256 s = rev s"

definition toy_hmac :: "string \<Rightarrow> string \<Rightarrow> string" where
  "toy_hmac key msg = take 32 (rev msg @ key)"

definition ex_env :: env where
  "ex_env = \<lparr>JWT_SECRET = ''s3cret'', DODO_WEBHOOK_SECRET = ''whsec_c2VjcmV0'', RESEND_API_KEY = []\<rparr>"

text \<open>The four rows the schema inserts into \<open>plan_quotas\<close>.\<close>

definition ex_catalog :: "plan_quota list" where
  "ex_catalog =
     [\<lparr>q_plan = ''free_trial'', q_daily_limit = 5, q_monthly_limit = 50, q_credits = 500,
       q_max_batch_size = 5, q_rate_limit_per_minute = 5, q_features = None\<rparr>,
      \<lparr>q_plan = ''monthly'', q_daily_limit = 50, q_monthly_limit = 1000, q_credits = 10000,
       q_max_batch_size = 20, q_rate_limit_per_minute = 60, q_features = None\<rparr>,
      \<lparr>q_plan = ''yearly'', q_daily_limit = 100, q_monthly_limit = 5000, q_credits = 60000,
       q_max_batch_size = 50, q_rate_limit_per_minute = 100, q_features = None\<rparr>,
      \<lparr>q_plan = ''lifetime'', q_daily_limit = 200, q_monthly_limit = 10000, q_credits = 500000,
       q_max_batch_size = 100, q_rate_limit_per_minute = 200, q_features = None\<rparr>]"

definition ex_user :: "string \<Rightarrow> int \<Rightarrow> user" where
  "ex_user st expires =
     \<lparr>u_id = ''u1'', u_email = ''ann@example.com'', u_license_key = ''AKH-MONTHLY-ABCD-EFGH-IJKL'',
      u_plan = ''monthly'', u_status = st, u_created_at = 1762041600, u_expires_at = expires,
      u_last_login = None, u_total_requests = 0, u_provider_subscription_id = None,
      u_payment_provider = Some ''dodo_webhook''\<rparr>"

definition ex_session :: "string \<Rightarrow> string \<Rightarrow> string \<Rightarrow> int \<Rightarrow> int \<Rightarrow> int \<Rightarrow> device_session" where
  "ex_session i uid fp reqs reset active =
     \<lparr>ds_id = i, ds_user_id = uid, ds_license_key = ''AKH-MONTHLY-ABCD-EFGH-IJKL'',
      ds_device_fingerprint = fp, ds_device_hash = toy_sha256 (fp @ ''Mozilla'' @ uid @ ''s3cret''),
      ds_browser_agent = ''Mozilla'', ds_created_at = 1000, ds_last_used = 1000,
      ds_daily_requests = reqs, ds_daily_reset_at = reset, ds_is_active = active\<rparr>"

definition ex_sessions :: "device_session list" where
  "ex_sessions = [ex_session ''s1'' ''u1'' ''fpA'' 3 86400 1, ex_session ''s2'' ''u1'' ''fpB'' 4 86400 1]"

definition ex_db :: "string \<Rightarrow> int \<Rightarrow> database" where
  "ex_db st expires = \<lparr>users = [ex_user st expires], plan_quotas = ex_catalog, device_sessions = []\<rparr>"

text \<open>
  A stand-in for \<open>JSON.parse\<close> on credentials: it knows the text of one payload.
\<close>

definition toy_parse :: "JWTPayload \<Rightarrow> string \<Rightarrow> JWTPayload option" where
  "toy_parse p js = (if js = stringify_payload p then Some p else None)"

definition ex_payload :: "string \<Rightarrow> JWTPayload" where
  "ex_payload p = \<lparr>sub = ''AKH-MONTHLY-ABCD-EFGH-IJKL'', plan = p, iat = 1762041600000, exp = 1764633600\<rparr>"

definition ex_request :: "string \<Rightarrow> string \<Rightarrow> api_request" where
  "ex_request p fp =
     \<lparr>Authorization = Some (''Bearer '' @ the (generateJWT toy_hmac (ex_payload p) ''s3cret'')),
      X_Device_ID = Some fp, X_Device_Agent = Some ''Mozilla''\<rparr>"

text \<open>A catalog whose only row has a daily limit of zero, and a database with two devices.\<close>

definition zero_limit_db :: database where
  "zero_limit_db =
     \<lparr>users = [ex_user ''active'' 1764633600],
      plan_quotas = [\<lparr>q_plan = ''monthly'', q_daily_limit = 0, q_monthly_limit = 1000, q_credits = 10000,
                      q_max_batch_size = 20, q_rate_limit_per_minute = 60, q_features = None\<rparr>],
      device_sessions = []\<rparr>"

definition busy_db :: database where
  "busy_db = \<lparr>users = [ex_user ''active'' 1764633600], plan_quotas = ex_catalog, device_sessions = ex_sessions\<rparr>"


definition ex_data :: "string \<Rightarrow> webhook_data" where
  "ex_data mail =
     \<lparr>wd_customer_dot_email = Some mail, wd_customer_email = None,
      wd_product_id = Some ''pdt_0NWZwZB3eia1vz1BCOw6C'', wd_lines0_product_id = None,
      wd_subscription_id = None\<rparr>"






text \<open>A payload whose JSON text has 88 characters, one more than a multiple of three.\<close>

definition padded_payload :: JWTPayload where
  "padded_payload = \<lparr>sub = ''AKH-YEARLY-ABCD-EFGH-IJKL'', plan = ''yearly'', iat = 1762041600000,
                      exp = 1793577600\<rparr>"

section \<open>Properties\<close>

subsection \<open>Auxiliary facts\<close>

lemma find_map_same:
  assumes "\<And>x. P (f x) = P x"
  shows "find P (map f xs) = map_option f (find P xs)"
  using assms by (induction xs) auto

lemma utf8_encode_empty: "utf8_encode s = [] \<longleftrightarrow> s = []"
  by (cases s) (auto simp: utf8_encode_def utf8_char_def Let_def)

lemma generateJWT_Some:
  "secret \<noteq> [] \<Longrightarrow> \<exists>tok. generateJWT hmac p secret = Some tok"
  by (simp add: generateJWT_def Let_def utf8_encode_empty)

lemma PRODUCTS_Some:
  assumes "PRODUCTS pid = Some pc"
  shows "p_plan pc \<in> valid_plans" and "0 < durationDays pc"
  using assms by (auto simp: PRODUCTS_def valid_plans_def split: if_splits)

lemma num_or_zero: "num_or x 0 = x"
  by (simp add: num_or_def)

lemma renew_user_ok:
  assumes "p \<in> valid_plans" and "p \<in> set (map q_plan (plan_quotas db))"
  shows "renew_user uid p x db
           = Some (db\<lparr>users := map (\<lambda>u. if u_id u = uid
                                        then u\<lparr>u_plan := p, u_status := ''active'', u_expires_at := x,
                                               u_payment_provider := Some ''dodo_webhook''\<rparr>
                                        else u) (users db)\<rparr>)"
  using assms by (auto simp: renew_user_def user_row_ok_def valid_statuses_def Let_def)

lemma find_append_None:
  "find P xs = None \<Longrightarrow> find P (xs @ ys) = find P ys"
  by (induction xs) (auto split: if_splits)

lemma find_None_not_in:
  "find (\<lambda>u. f u = k) xs = None \<Longrightarrow> k \<notin> set (map f xs)"
  by (auto simp: find_None_iff)

lemma those_Some_all: "those xs = Some ys \<Longrightarrow> None \<notin> set xs"
  by (induction xs arbitrary: ys) (auto split: option.splits)

lemma set_strip_padding: "x \<in> set d \<Longrightarrow> x \<noteq> CHR ''='' \<Longrightarrow> x \<in> set (strip_padding d)"
proof -
  have bl: "x \<in> set (butlast xs)" if "x \<in> set xs" "x \<noteq> last xs" for xs :: string
  proof -
    from that have "xs \<noteq> []" by auto
    then have "xs = butlast xs @ [last xs]" by simp
    then have "set xs = set (butlast xs) \<union> {last xs}"
      by (metis Un_insert_right list.simps(15) set_append sup_bot.right_neutral empty_set)
    with that show ?thesis by auto
  qed
  assume x: "x \<in> set d" "x \<noteq> CHR ''=''"
  show ?thesis
    using x bl [of d] bl [of "butlast d"] by (auto simp: strip_padding_def)
qed

lemma atob_Some_alphabet:
  assumes "atob s = Some x" and "c \<in> set s" and "\<not> ascii_whitespace c" and "c \<noteq> CHR ''=''"
  shows "b64index c \<noteq> None"
proof -
  let ?d = "strip_padding (filter (\<lambda>c. \<not> ascii_whitespace c) s)"
  from assms(2,3) have "c \<in> set (filter (\<lambda>c. \<not> ascii_whitespace c) s)" by simp
  from this assms(4) have c: "c \<in> set ?d" by (rule set_strip_padding)
  from assms(1) obtain ys where "those (map b64index ?d) = Some ys"
    by (auto simp: atob_def Let_def split: if_splits)
  then have "None \<notin> set (map b64index ?d)" by (rule those_Some_all)
  with c show ?thesis by force
qed

lemma atob_Some_no_url_chars:
  assumes "atob s = Some x"
  shows "replace_all CHR ''_'' CHR ''/'' (replace_all CHR ''-'' CHR ''+'' s) = s"
proof -
  have a: "CHR ''-'' \<notin> set s"
    using atob_Some_alphabet [OF assms, of "CHR ''-''"]
    by (auto simp: b64index_def ascii_whitespace_def)
  have b: "CHR ''_'' \<notin> set s"
    using atob_Some_alphabet [OF assms, of "CHR ''_''"]
    by (auto simp: b64index_def ascii_whitespace_def)
  have "replace_all c d t = t" if "c \<notin> set t" for c d t
    using that by (induction t) (auto simp: replace_all_def)
  with a b show ?thesis by simp
qed

lemma split_on_segment:
  "c \<notin> set a \<Longrightarrow> split_on c (a @ c # rest) = a # split_on c rest"
  by (induction a) (auto split: list.splits)

text \<open>
  One call for a device that has a row: the row is found, nothing is appended, and the row
  is still found afterwards.
\<close>

lemma existing_step:
  assumes "find (\<lambda>s. ds_user_id s = userId \<and> ds_device_hash s = sha (fp @ agent @ userId @ secret)) sessions
             = Some r"
  shows "\<exists>sessions' r'.
           getOrCreateDeviceSession sha secret uuid now today userId lk fp agent sessions
             = (sessions', Inr (ExistingRow r'))
           \<and> ds_id r' = ds_id r \<and> ds_user_id r' = ds_user_id r \<and> ds_device_hash r' = ds_device_hash r
           \<and> map ds_id sessions' = map ds_id sessions
           \<and> (\<exists>r2. find (\<lambda>s. ds_user_id s = userId \<and> ds_device_hash s = sha (fp @ agent @ userId @ secret))
                      sessions' = Some r2
                  \<and> ds_id r2 = ds_id r)"
proof -
  let ?P = "\<lambda>s. ds_user_id s = userId \<and> ds_device_hash s = sha (fp @ agent @ userId @ secret)"
  let ?reset = "\<lambda>s. if ds_id s = ds_id r
                     then s\<lparr>ds_daily_requests := 0, ds_daily_reset_at := today, ds_last_used := now\<rparr>
                     else s"
  let ?touch = "\<lambda>s. if ds_id s = ds_id r then s\<lparr>ds_last_used := now\<rparr> else s"
  have a: "find ?P (map ?reset sessions) = map_option ?reset (find ?P sessions)"
    by (rule find_map_same) simp
  have b: "find ?P (map ?touch sessions) = map_option ?touch (find ?P sessions)"
    by (rule find_map_same) simp
  show ?thesis
    using assms a b
    by (simp add: getOrCreateDeviceSession_def Let_def comp_def)
qed

subsection \<open>License validation\<close>

text \<open>
  Claim C1, as the code has it. For a stored license found by its key, \<open>validate\<close>
  answers 403 with \<open>License inactive\<close> when the status is not \<open>active\<close>, and 403 with
  \<open>License expired\<close> when the status is \<open>active\<close> and \<open>expires_at\<close> is strictly
  before the clock; the answer is an error body, so no token is minted, and no table
  changes.
\<close>

theorem validate_rejects_inactive_or_expired:
  assumes "find (\<lambda>u. u_license_key u = k) (users db) = Some local"
      and "k \<noteq> []"
      and "u_status local \<noteq> ''active'' \<or> u_expires_at local < now"
  shows "validate hmac dodo_validate dodo_license e uuid now now_ms (Json (Some k)) db
           = (errorResponse (if u_status local \<noteq> ''active'' then ''License inactive''
                            else ''License expired'') 403, db)"
  using assms by (auto simp: validate_def truthy_def)

theorem validate_rejects_witness:
  "validate toy_hmac (\<lambda>k. Threw) (\<lambda>k. Threw) ex_env ''n1'' 1764633601 1764633601000
      (Json (Some ''AKH-MONTHLY-ABCD-EFGH-IJKL'')) (ex_db ''active'' 1764633600)
     = (errorResponse ''License expired'' 403, ex_db ''active'' 1764633600)"
proof -
  have f: "find (\<lambda>u. u_license_key u = ''AKH-MONTHLY-ABCD-EFGH-IJKL'') (users (ex_db ''active'' 1764633600))
             = Some (ex_user ''active'' 1764633600)"
    by (simp add: ex_db_def ex_user_def)
  have c: "u_status (ex_user ''active'' 1764633600) \<noteq> ''active''
             \<or> u_expires_at (ex_user ''active'' 1764633600) < 1764633601"
    by (simp add: ex_user_def)
  from validate_rejects_inactive_or_expired
         [OF f _ c, of toy_hmac "\<lambda>k. Threw" "\<lambda>k. Threw" ex_env "''n1''" 1764633601000]
  show ?thesis by (simp add: ex_user_def)
qed

text \<open>
  The claim as the spec words it also covers \<open>expires_at = now\<close>. There the route
  succeeds: an active license whose \<open>expires_at\<close> equals the clock gets status 200 and a
  token.
\<close>

theorem validate_accepts_at_expiry_instant:
  "u_expires_at (ex_user ''active'' 1764633600) \<le> 1764633600
   \<and> fst (validate toy_hmac (\<lambda>k. Threw) (\<lambda>k. Threw) ex_env ''n1'' 1764633600 1764633600000
        (Json (Some ''AKH-MONTHLY-ABCD-EFGH-IJKL'')) (ex_db ''active'' 1764633600))
     = Response 200 (AuthBody
         (the (generateJWT toy_hmac \<lparr>sub = ''AKH-MONTHLY-ABCD-EFGH-IJKL'', plan = ''monthly'',
                                     iat = 1764633600000, exp = 1764633600\<rparr> ''s3cret''))
         ''ann@example.com'' ''monthly'' (Some (ex_catalog ! 1)) 1764633600)"
proof -
  obtain tok where t: "generateJWT toy_hmac \<lparr>sub = ''AKH-MONTHLY-ABCD-EFGH-IJKL'', plan = ''monthly'',
                                     iat = 1764633600000, exp = 1764633600\<rparr> ''s3cret'' = Some tok"
    using generateJWT_Some [of "''s3cret''"] by auto
  show ?thesis
    by (simp add: validate_def truthy_def ex_db_def ex_user_def ex_env_def t date_in_range_def
        jsonResponse_def ex_catalog_def)
qed

subsection \<open>Device sessions\<close>

text \<open>
  Claim C3. When the table holds a row for the \<open>(user_id, device_hash)\<close> of a device,
  every call of a sequence of calls with the same \<open>(user, fingerprint, agent)\<close> returns
  the existing row (the row with the id of the one first found): the ids of the table
  stay the same list, so no row is inserted, and no call fails with
  \<open>DEVICE_LIMIT_REACHED\<close>. Nothing is assumed about the number of active sessions.
\<close>

theorem known_device_readmitted:
  assumes "find (\<lambda>s. ds_user_id s = userId \<and> ds_device_hash s = sha (fp @ agent @ userId @ secret)) sessions
             = Some r"
      and "repeated_calls sha secret userId lk fp agent cs sessions = (sessions', results)"
  shows "map ds_id sessions' = map ds_id sessions
         \<and> length results = length cs
         \<and> (\<forall>res \<in> set results.
               \<exists>row. res = Inr (ExistingRow row) \<and> ds_id row = ds_id r \<and> ds_user_id row = userId
                     \<and> ds_device_hash row = sha (fp @ agent @ userId @ secret))"
  using assms
proof (induction cs arbitrary: sessions r sessions' results)
  case Nil
  then show ?case by simp
next
  case (Cons c cs)
  obtain uuid now today where c: "c = (uuid, now, today)" by (cases c) auto
  from existing_step [where sha = sha and fp = fp and agent = agent and secret = secret
      and userId = userId and sessions = sessions and r = r and uuid = uuid and now = now
      and today = today and lk = lk, OF Cons.prems(1)]
  obtain s1 r1 r2 where
    step: "getOrCreateDeviceSession sha secret uuid now today userId lk fp agent sessions
             = (s1, Inr (ExistingRow r1))"
    and id1: "ds_id r1 = ds_id r" "ds_user_id r1 = ds_user_id r" "ds_device_hash r1 = ds_device_hash r"
    and ids: "map ds_id s1 = map ds_id sessions"
    and f2: "find (\<lambda>s. ds_user_id s = userId \<and> ds_device_hash s = sha (fp @ agent @ userId @ secret)) s1
               = Some r2"
    and id2: "ds_id r2 = ds_id r"
    by blast
  obtain s2 rs where rest: "repeated_calls sha secret userId lk fp agent cs s1 = (s2, rs)"
    by (cases "repeated_calls sha secret userId lk fp agent cs s1") auto
  from Cons.prems(2) c step rest have out: "sessions' = s2" "results = Inr (ExistingRow r1) # rs"
    by auto
  from Cons.prems(1) have pr: "ds_user_id r = userId" "ds_device_hash r = sha (fp @ agent @ userId @ secret)"
    by (auto simp: find_Some_iff)
  from Cons.IH [OF f2 rest] have ih:
    "map ds_id s2 = map ds_id s1" "length rs = length cs"
    "\<forall>res \<in> set rs.
       \<exists>row. res = Inr (ExistingRow row) \<and> ds_id row = ds_id r2 \<and> ds_user_id row = userId
             \<and> ds_device_hash row = sha (fp @ agent @ userId @ secret)"
    by auto
  show ?case using out ih ids id1 id2 pr by auto
qed

theorem known_device_readmitted_witness:
  "find (\<lambda>s. ds_user_id s = ''u1'' \<and> ds_device_hash s = toy_sha256 (''fpA'' @ ''Mozilla'' @ ''u1'' @ ''s3cret''))
        ex_sessions
     = Some (ex_session ''s1'' ''u1'' ''fpA'' 3 86400 1)
   \<and> map ds_id (fst (repeated_calls toy_sha256 ''s3cret'' ''u1'' ''K'' ''fpA'' ''Mozilla''
                        [(''n1'', 90000, 86400), (''n2'', 180000, 172800)] ex_sessions)) = [''s1'', ''s2'']
   \<and> length (snd (repeated_calls toy_sha256 ''s3cret'' ''u1'' ''K'' ''fpA'' ''Mozilla''
                        [(''n1'', 90000, 86400), (''n2'', 180000, 172800)] ex_sessions)) = 2"
proof -
  have h: "find (\<lambda>s. ds_user_id s = ''u1''
                     \<and> ds_device_hash s = toy_sha256 (''fpA'' @ ''Mozilla'' @ ''u1'' @ ''s3cret'')) ex_sessions
             = Some (ex_session ''s1'' ''u1'' ''fpA'' 3 86400 1)"
    by (simp add: ex_sessions_def ex_session_def)
  have ids: "map ds_id ex_sessions = [''s1'', ''s2'']"
    by (simp add: ex_sessions_def ex_session_def)
  from known_device_readmitted [where sha = toy_sha256 and fp = "''fpA''" and agent = "''Mozilla''"
      and secret = "''s3cret''" and userId = "''u1''" and sessions = ex_sessions
      and r = "ex_session ''s1'' ''u1'' ''fpA'' 3 86400 1" and lk = "''K''"
      and cs = "[(''n1'', 90000, 86400), (''n2'', 180000, 172800)]", OF h surjective_pairing] ids h
  show ?thesis by simp
qed

text \<open>
  Claim C4. When the user already has \<open>MAX_DEVICES_PER_LICENSE\<close> (2) or more active
  sessions and the derived hash matches none of the user's rows, the call throws
  \<open>DEVICE_LIMIT_REACHED\<close> and returns the table as it was (no row inserted, no row
  changed); and a following call whose derived hash is the one of any row of the user is
  admitted with that user's existing row.
\<close>

theorem device_cap_rejects_new_device:
  assumes "MAX_DEVICES_PER_LICENSE
             \<le> length (filter (\<lambda>s. ds_user_id s = userId \<and> ds_is_active s = 1) sessions)"
      and "find (\<lambda>s. ds_user_id s = userId \<and> ds_device_hash s = sha (fp @ agent @ userId @ secret)) sessions
             = None"
  shows "getOrCreateDeviceSession sha secret uuid now today userId lk fp agent sessions
           = (sessions, Inl DEVICE_LIMIT_REACHED)
         \<and> (\<forall>r \<in> set sessions.
               ds_user_id r = userId \<longrightarrow> ds_device_hash r = sha (fp2 @ agent2 @ userId @ secret) \<longrightarrow>
               (\<exists>row. snd (getOrCreateDeviceSession sha secret uuid2 now2 today2 userId lk2 fp2 agent2
                              (fst (getOrCreateDeviceSession sha secret uuid now today userId lk fp agent
                                      sessions)))
                        = Inr (ExistingRow row)
                      \<and> ds_user_id row = userId \<and> ds_device_hash row = ds_device_hash r))"
proof -
  have rej: "getOrCreateDeviceSession sha secret uuid now today userId lk fp agent sessions
           = (sessions, Inl DEVICE_LIMIT_REACHED)"
    using assms by (simp add: getOrCreateDeviceSession_def Let_def)
  have adm: "\<exists>row. snd (getOrCreateDeviceSession sha secret uuid2 now2 today2 userId lk2 fp2 agent2 sessions)
                        = Inr (ExistingRow row)
                      \<and> ds_user_id row = userId \<and> ds_device_hash row = ds_device_hash r"
    if r: "r \<in> set sessions" "ds_user_id r = userId" "ds_device_hash r = sha (fp2 @ agent2 @ userId @ secret)"
    for r
  proof -
    let ?P = "\<lambda>s. ds_user_id s = userId \<and> ds_device_hash s = sha (fp2 @ agent2 @ userId @ secret)"
    from r have "\<exists>x \<in> set sessions. ?P x" by blast
    then obtain r0 where f: "find ?P sessions = Some r0"
      by (cases "find ?P sessions") (auto simp: find_None_iff)
    then have p0: "?P r0" by (auto simp: find_Some_iff)
    from existing_step [where sha = sha and fp = fp2 and agent = agent2 and secret = secret
        and userId = userId and sessions = sessions and r = r0 and uuid = uuid2 and now = now2
        and today = today2 and lk = lk2, OF f] p0 r
    show ?thesis by auto
  qed
  show ?thesis using rej adm by simp
qed

theorem device_cap_rejects_witness:
  "MAX_DEVICES_PER_LICENSE \<le> length (filter (\<lambda>s. ds_user_id s = ''u1'' \<and> ds_is_active s = 1) ex_sessions)
   \<and> find (\<lambda>s. ds_user_id s = ''u1''
                \<and> ds_device_hash s = toy_sha256 (''fpC'' @ ''Mozilla'' @ ''u1'' @ ''s3cret'')) ex_sessions = None
   \<and> getOrCreateDeviceSession toy_sha256 ''s3cret'' ''n3'' 90000 86400 ''u1'' ''K'' ''fpC'' ''Mozilla'' ex_sessions
       = (ex_sessions, Inl DEVICE_LIMIT_REACHED)"
proof -
  have c: "MAX_DEVICES_PER_LICENSE
             \<le> length (filter (\<lambda>s. ds_user_id s = ''u1'' \<and> ds_is_active s = 1) ex_sessions)"
    by (simp add: MAX_DEVICES_PER_LICENSE_def ex_sessions_def ex_session_def)
  have n: "find (\<lambda>s. ds_user_id s = ''u1''
                \<and> ds_device_hash s = toy_sha256 (''fpC'' @ ''Mozilla'' @ ''u1'' @ ''s3cret'')) ex_sessions = None"
    by (simp add: ex_sessions_def ex_session_def toy_sha256_def)
  from device_cap_rejects_new_device [where sha = toy_sha256 and fp = "''fpC''" and agent = "''Mozilla''"
      and secret = "''s3cret''" and userId = "''u1''" and sessions = ex_sessions
      and uuid = "''n3''" and now = 90000 and today = 86400 and lk = "''K''", OF c n] c n
  show ?thesis by simp
qed

subsection \<open>Daily quota\<close>

text \<open>
  Claim C5, as the code has it. For a request that reaches the quota check (valid token,
  user found, device session obtained) and whose plan has a row in \<open>plan_quotas\<close>: the
  usage the route compares is the sum of \<open>daily_requests\<close> over the user's sessions with
  \<open>daily_reset_at \<ge> today\<close>; the limit it compares with is the row's \<open>daily_limit\<close>,
  or 10 when that is 0; the request is admitted exactly when the usage is strictly below
  that limit, and otherwise answered 429 with the used/limit pair in the message. The
  stats route reports the same usage and limit, and \<open>can_use\<close> is the same comparison.
\<close>

theorem quota_admission:
  assumes "verifyJWT hmac parse (bearer_token req) (JWT_SECRET e) = Some payload"
      and "find (\<lambda>u. u_license_key u = sub payload) (users db) = Some u"
      and "getOrCreateDeviceSession sha (JWT_SECRET e) uuid now today (u_id u) (u_license_key u)
             (header_or_empty (X_Device_ID req)) (header_or_empty (X_Device_Agent req)) (device_sessions db)
             = (sessions', Inr session)"
      and "find (\<lambda>r. q_plan r = plan payload) (plan_quotas db) = Some q"
      and "used = sum_list (map ds_daily_requests
                     (filter (\<lambda>s. ds_user_id s = u_id u \<and> today2 \<le> ds_daily_reset_at s) sessions'))"
      and "lim = (if q_daily_limit q = 0 then 10 else q_daily_limit q)"
  shows "generate_keywords_admission hmac parse sha e uuid now today today2 req db
           = (if used < lim then Inr (session, used, lim)
              else Inl (errorResponse
                          (''Daily limit exceeded - Used '' @ show_int used @ ''/'' @ show_int lim) 429),
              db\<lparr>device_sessions := sessions'\<rparr>)
         \<and> (\<exists>st. user_stats hmac parse sha e uuid now today today2 req db
                     = (Response 200 (StatsBody st), db\<lparr>device_sessions := sessions'\<rparr>)
                  \<and> daily_used st = used \<and> daily_limit st = lim \<and> can_use st = (used < lim))"
  using assms
  by (simp add: generate_keywords_admission_def user_stats_def dailyUsage_def dailyLimit_def num_or_def
      jsonResponse_def Let_def)

theorem quota_admission_witness:
  "generate_keywords_admission toy_hmac (toy_parse (ex_payload ''monthly'')) toy_sha256 ex_env ''n1'' 90000 86400 86400
      (ex_request ''monthly'' ''fpA'') busy_db
     = (Inr (ExistingRow (ex_session ''s1'' ''u1'' ''fpA'' 3 86400 1), 7, 50),
        busy_db\<lparr>device_sessions := [(ex_session ''s1'' ''u1'' ''fpA'' 3 86400 1)\<lparr>ds_last_used := 90000\<rparr>,
                                      ex_session ''s2'' ''u1'' ''fpB'' 4 86400 1]\<rparr>)"
proof -
  have v: "verifyJWT toy_hmac (toy_parse (ex_payload ''monthly'')) (bearer_token (ex_request ''monthly'' ''fpA''))
             (JWT_SECRET ex_env) = Some (ex_payload ''monthly'')"
    by code_simp
  have u: "find (\<lambda>u. u_license_key u = sub (ex_payload ''monthly'')) (users busy_db)
             = Some (ex_user ''active'' 1764633600)"
    by (simp add: busy_db_def ex_user_def ex_payload_def)
  have s: "getOrCreateDeviceSession toy_sha256 (JWT_SECRET ex_env) ''n1'' 90000 86400
             (u_id (ex_user ''active'' 1764633600)) (u_license_key (ex_user ''active'' 1764633600))
             (header_or_empty (X_Device_ID (ex_request ''monthly'' ''fpA'')))
             (header_or_empty (X_Device_Agent (ex_request ''monthly'' ''fpA''))) (device_sessions busy_db)
           = ([(ex_session ''s1'' ''u1'' ''fpA'' 3 86400 1)\<lparr>ds_last_used := 90000\<rparr>,
               ex_session ''s2'' ''u1'' ''fpB'' 4 86400 1],
              Inr (ExistingRow (ex_session ''s1'' ''u1'' ''fpA'' 3 86400 1)))"
    by (simp add: getOrCreateDeviceSession_def busy_db_def ex_sessions_def ex_session_def ex_user_def
        ex_env_def ex_request_def header_or_empty_def Let_def)
  have q: "find (\<lambda>r. q_plan r = plan (ex_payload ''monthly'')) (plan_quotas busy_db) = Some (ex_catalog ! 1)"
    by (simp add: busy_db_def ex_catalog_def ex_payload_def)
  have used: "(7::int) = sum_list (map ds_daily_requests
                     (filter (\<lambda>s. ds_user_id s = u_id (ex_user ''active'' 1764633600)
                                  \<and> 86400 \<le> ds_daily_reset_at s)
                        [(ex_session ''s1'' ''u1'' ''fpA'' 3 86400 1)\<lparr>ds_last_used := 90000\<rparr>,
                         ex_session ''s2'' ''u1'' ''fpB'' 4 86400 1]))"
    by (simp add: ex_session_def ex_user_def)
  have lim: "(50::int) = (if q_daily_limit (ex_catalog ! 1) = 0 then 10 else q_daily_limit (ex_catalog ! 1))"
    by (simp add: ex_catalog_def)
  from quota_admission [OF v u s q used lim]
  show ?thesis by simp
qed

text \<open>
  The claim as the spec words it compares with the row's \<open>daily_limit\<close> itself. With a
  row whose \<open>daily_limit\<close> is 0 the usage (0) is not below the limit, and the request is
  admitted all the same, against the limit 10.
\<close>

theorem zero_daily_limit_admits:
  "map q_daily_limit (plan_quotas zero_limit_db) = [0]
   \<and> fst (generate_keywords_admission toy_hmac (toy_parse (ex_payload ''monthly'')) toy_sha256 ex_env ''n1''
            90000 86400 86400 (ex_request ''monthly'' ''fpA'') zero_limit_db)
       = Inr (NewSession ''n1'', 0, 10)
   \<and> \<not> (dailyUsage ''u1'' 86400
            (device_sessions (snd (generate_keywords_admission toy_hmac (toy_parse (ex_payload ''monthly''))
               toy_sha256 ex_env ''n1'' 90000 86400 86400 (ex_request ''monthly'' ''fpA'') zero_limit_db)))
          < q_daily_limit (the (find (\<lambda>r. q_plan r = ''monthly'') (plan_quotas zero_limit_db))))"
proof -
  have v: "verifyJWT toy_hmac (toy_parse (ex_payload ''monthly'')) (bearer_token (ex_request ''monthly'' ''fpA''))
             (JWT_SECRET ex_env) = Some (ex_payload ''monthly'')"
    by code_simp
  have g: "generate_keywords_admission toy_hmac (toy_parse (ex_payload ''monthly'')) toy_sha256 ex_env ''n1''
            90000 86400 86400 (ex_request ''monthly'' ''fpA'') zero_limit_db
       = (Inr (NewSession ''n1'', 0, 10),
          zero_limit_db\<lparr>device_sessions :=
            [\<lparr>ds_id = ''n1'', ds_user_id = ''u1'', ds_license_key = ''AKH-MONTHLY-ABCD-EFGH-IJKL'',
              ds_device_fingerprint = ''fpA'',
              ds_device_hash = toy_sha256 (''fpA'' @ ''Mozilla'' @ ''u1'' @ ''s3cret''),
              ds_browser_agent = ''Mozilla'', ds_created_at = 90000, ds_last_used = 90000,
              ds_daily_requests = 0, ds_daily_reset_at = 86400, ds_is_active = 1\<rparr>]\<rparr>)"
    unfolding generate_keywords_admission_def v
    by (simp add: zero_limit_db_def ex_user_def ex_payload_def getOrCreateDeviceSession_def
        MAX_DEVICES_PER_LICENSE_def dailyUsage_def dailyLimit_def num_or_def Let_def ex_env_def
        ex_request_def header_or_empty_def)
  show ?thesis
    unfolding g by (simp add: zero_limit_db_def dailyUsage_def)
qed

subsection \<open>Webhook lifecycle\<close>

text \<open>
  Claim C2. A success event that resolves to an e-mail address and to a product of the
  table with duration \<open>D\<close> (in seconds), processed at time \<open>now\<close>. If a license exists
  for the address, with expiry \<open>E\<close>, then afterwards the license of that address is the
  same row (same id and key) with \<open>expires_at = max E now + D\<close> and status \<open>active\<close>. If
  none exists, a row is appended for the address with \<open>expires_at = now + D\<close> and status
  \<open>active\<close>. The storage layer must accept the write: the plan of the product has its
  row in \<open>plan_quotas\<close> (the foreign key), and for a new license the generated id and
  key are not already in the table (the primary key and the unique key).
\<close>

theorem webhook_success_sets_expiry:
  assumes ty: "ty \<in> Some ` success_types"
      and em: "js_or (wd_customer_dot_email wd) (wd_customer_email wd) = Some mail" "mail \<noteq> []"
      and pid: "(if \<not> truthy (js_or (wd_product_id wd) (wd_lines0_product_id wd)) \<and> truthy (wd_subscription_id wd)
                 then Some ''pdt_0NWZwZB3eia1vz1BCOw6C''
                 else js_or (wd_product_id wd) (wd_lines0_product_id wd)) = Some pid" "pid \<noteq> []"
      and pc: "PRODUCTS pid = Some pc"
      and cat: "p_plan pc \<in> set (map q_plan (plan_quotas db))"
      and D: "D = durationDays pc * 86400"
      and db': "db' = processWebhookAsync uuid random now ty (Some wd) db"
  shows "(\<forall>existing. find (\<lambda>u. u_email u = mail) (users db) = Some existing \<longrightarrow>
            (\<exists>r. find (\<lambda>u. u_email u = mail) (users db') = Some r
                 \<and> u_id r = u_id existing \<and> u_license_key r = u_license_key existing
                 \<and> u_expires_at r = max (u_expires_at existing) now + D \<and> u_status r = ''active''))
         \<and> (find (\<lambda>u. u_email u = mail) (users db) = None \<longrightarrow>
              uuid \<notin> set (map u_id (users db)) \<longrightarrow>
              generateKey random (p_plan pc) \<notin> set (map u_license_key (users db)) \<longrightarrow>
              (\<exists>r. users db' = users db @ [r] \<and> find (\<lambda>u. u_email u = mail) (users db') = Some r
                   \<and> u_email r = mail \<and> u_expires_at r = now + D \<and> u_status r = ''active''))"
proof -
  have nf: "ty \<notin> Some ` failure_types"
    using ty by (auto simp: success_types_def failure_types_def)
  have t1: "truthy (Some mail)" "truthy (Some pid)"
    using em pid by (simp_all add: truthy_def)
  have vp: "p_plan pc \<in> valid_plans"
    using PRODUCTS_Some(1) [OF pc] .
  have renew: "\<exists>r. find (\<lambda>u. u_email u = mail) (users db') = Some r
                 \<and> u_id r = u_id existing \<and> u_license_key r = u_license_key existing
                 \<and> u_expires_at r = max (u_expires_at existing) now + D \<and> u_status r = ''active''"
    if f: "find (\<lambda>u. u_email u = mail) (users db) = Some existing" for existing
  proof -
    let ?x = "(if u_expires_at existing > now then u_expires_at existing else now) + D"
    let ?upd = "\<lambda>u. if u_id u = u_id existing
                     then u\<lparr>u_plan := p_plan pc, u_status := ''active'', u_expires_at := ?x,
                            u_payment_provider := Some ''dodo_webhook''\<rparr>
                     else u"
    have eq: "db' = db\<lparr>users := map ?upd (users db)\<rparr>"
      using ty nf em pid pc f t1 D db' renew_user_ok [OF vp cat]
      by (simp add: processWebhookAsync_def Let_def num_or_zero)
    have "find (\<lambda>u. u_email u = mail) (map ?upd (users db))
            = map_option ?upd (find (\<lambda>u. u_email u = mail) (users db))"
      by (rule find_map_same) simp
    with f eq show ?thesis by (simp add: max_def)
  qed
  have create: "\<exists>r. users db' = users db @ [r] \<and> find (\<lambda>u. u_email u = mail) (users db') = Some r
                   \<and> u_email r = mail \<and> u_expires_at r = now + D \<and> u_status r = ''active''"
    if f: "find (\<lambda>u. u_email u = mail) (users db) = None"
      and fresh: "uuid \<notin> set (map u_id (users db))"
                 "generateKey random (p_plan pc) \<notin> set (map u_license_key (users db))"
  proof -
    from f have ne: "mail \<notin> set (map u_email (users db))" by (rule find_None_not_in)
    let ?r = "\<lparr>u_id = uuid, u_email = mail, u_license_key = generateKey random (p_plan pc),
               u_plan = p_plan pc, u_status = ''active'', u_created_at = now, u_expires_at = now + D,
               u_last_login = None, u_total_requests = 0, u_provider_subscription_id = None,
               u_payment_provider = Some ''dodo_webhook''\<rparr>"
    have ins: "insert_user ?r db = Some (db\<lparr>users := users db @ [?r]\<rparr>)"
      using ne fresh vp cat by (simp add: insert_user_def user_row_ok_def valid_statuses_def)
    have eq: "db' = db\<lparr>users := users db @ [?r]\<rparr>"
      using ty nf em pid pc f t1 D db' ins
      by (simp add: processWebhookAsync_def Let_def)
    have "find (\<lambda>u. u_email u = mail) (users db @ [?r]) = Some ?r"
      using f by (simp add: find_append_None)
    with eq show ?thesis by simp
  qed
  show ?thesis using renew create by blast
qed



theorem webhook_success_witness:
  "u_expires_at (the (find (\<lambda>u. u_email u = ''ann@example.com'')
       (users (processWebhookAsync ''n1'' ''ABCDEFGHIJKL'' 1764634600 (Some ''payment.succeeded'')
                 (Some (ex_data ''ann@example.com'')) (ex_db ''expired'' 1764633600)))))
     = 1764634600 + 2592000
   \<and> u_status (the (find (\<lambda>u. u_email u = ''ann@example.com'')
       (users (processWebhookAsync ''n1'' ''ABCDEFGHIJKL'' 1764634600 (Some ''payment.succeeded'')
                 (Some (ex_data ''ann@example.com'')) (ex_db ''expired'' 1764633600)))))
     = ''active''
   \<and> map u_expires_at
       (users (processWebhookAsync ''n1'' ''MNOPQRSTUVWX'' 1764634600 (Some ''payment.succeeded'')
                 (Some (ex_data ''bob@example.com'')) (ex_db ''active'' 1764633600)))
     = [1764633600, 1764634600 + 2592000]"
proof -
  let ?pc = "\<lparr>p_plan = ''monthly'', durationDays = 30, p_name = ''Monthly Pro''\<rparr>"
  have ty: "Some ''payment.succeeded'' \<in> Some ` success_types"
    by (simp add: success_types_def)
  have pc: "PRODUCTS ''pdt_0NWZwZB3eia1vz1BCOw6C'' = Some ?pc"
    by (simp add: PRODUCTS_def)
  have d: "(2592000::int) = durationDays ?pc * 86400" by simp
  have cat: "p_plan ?pc \<in> set (map q_plan (plan_quotas (ex_db st x)))" for st x
    by (simp add: ex_db_def ex_catalog_def)
  have em: "js_or (wd_customer_dot_email (ex_data m)) (wd_customer_email (ex_data m)) = Some m"
    if "m \<noteq> []" for m
    using that by (simp add: js_or_def truthy_def ex_data_def)
  have pid: "(if \<not> truthy (js_or (wd_product_id (ex_data m)) (wd_lines0_product_id (ex_data m)))
                 \<and> truthy (wd_subscription_id (ex_data m))
              then Some ''pdt_0NWZwZB3eia1vz1BCOw6C''
              else js_or (wd_product_id (ex_data m)) (wd_lines0_product_id (ex_data m)))
             = Some ''pdt_0NWZwZB3eia1vz1BCOw6C''" for m
    by (simp add: js_or_def truthy_def ex_data_def)
  have ann: "find (\<lambda>u. u_email u = ''ann@example.com'') (users (ex_db ''expired'' 1764633600))
               = Some (ex_user ''expired'' 1764633600)"
    by (simp add: ex_db_def ex_user_def)
  have bob: "find (\<lambda>u. u_email u = ''bob@example.com'') (users (ex_db ''active'' 1764633600)) = None"
    by (simp add: ex_db_def ex_user_def)
  have fresh: "''n1'' \<notin> set (map u_id (users (ex_db ''active'' 1764633600)))"
    "generateKey ''MNOPQRSTUVWX'' (p_plan ?pc) \<notin> set (map u_license_key (users (ex_db ''active'' 1764633600)))"
    by (simp_all add: ex_db_def ex_user_def generateKey_def toUpperCase_def)
  from webhook_success_sets_expiry [where mail = "''ann@example.com''" and uuid = "''n1''"
         and random = "''ABCDEFGHIJKL''" and now = 1764634600 and db = "ex_db ''expired'' 1764633600"
         and wd = "ex_data ''ann@example.com''", OF ty em _ pid _ pc cat d refl] ann
  have a: "\<exists>r. find (\<lambda>u. u_email u = ''ann@example.com'')
                (users (processWebhookAsync ''n1'' ''ABCDEFGHIJKL'' 1764634600 (Some ''payment.succeeded'')
                          (Some (ex_data ''ann@example.com'')) (ex_db ''expired'' 1764633600))) = Some r
              \<and> u_expires_at r = max (u_expires_at (ex_user ''expired'' 1764633600)) 1764634600 + 2592000
              \<and> u_status r = ''active''"
    by auto
  from webhook_success_sets_expiry [where mail = "''bob@example.com''" and uuid = "''n1''"
         and random = "''MNOPQRSTUVWX''" and now = 1764634600 and db = "ex_db ''active'' 1764633600"
         and wd = "ex_data ''bob@example.com''", OF ty em _ pid _ pc cat d refl] bob fresh
  have b: "\<exists>r. users (processWebhookAsync ''n1'' ''MNOPQRSTUVWX'' 1764634600 (Some ''payment.succeeded'')
                          (Some (ex_data ''bob@example.com'')) (ex_db ''active'' 1764633600))
                = users (ex_db ''active'' 1764633600) @ [r]
              \<and> u_expires_at r = 1764634600 + 2592000"
    by auto
  from a b show ?thesis
    by (auto simp: ex_user_def ex_db_def)
qed









lemma upsert_new_key:
  assumes "find (\<lambda>u. u_license_key u = u_license_key r) (users db) = None"
  shows "upsert_user r db = insert_user r db"
  using find_None_not_in [OF assms] by (simp add: upsert_user_def insert_user_def)

lemma validate_new_key:
  assumes "truthy lk" and "find (\<lambda>u. u_license_key u = the lk) (users db) = None"
      and "dodo_validate (the lk) = Got True" and "dodo_license (the lk) = Got licData"
  shows "\<exists>r. u_license_key r = the lk
             \<and> snd (validate hmac dodo_validate dodo_license e uuid now now_ms (Json lk) db)
                 = (case upsert_user r db of None \<Rightarrow> db | Some db' \<Rightarrow> db')"
proof -
  let ?p = "if truthy (metadata_plan_type licData) then the (metadata_plan_type licData) else ''monthly''"
  let ?em = "if truthy (lic_customer_email licData) then the (lic_customer_email licData)
             else ''user_'' @ take 6 (the lk) @ ''@zonkey.ai''"
  let ?r = "\<lparr>u_id = uuid, u_email = ?em, u_license_key = the lk, u_plan = ?p,
             u_status = ''active'', u_created_at = now, u_expires_at = now + default_duration ?p,
             u_last_login = None, u_total_requests = 0,
             u_provider_subscription_id = None, u_payment_provider = None\<rparr>"
  have "snd (validate hmac dodo_validate dodo_license e uuid now now_ms (Json lk) db)
          = (case upsert_user ?r db of None \<Rightarrow> db | Some db' \<Rightarrow> db')"
  proof (cases "upsert_user ?r db")
    case None
    with assms show ?thesis by (simp add: validate_def Let_def)
  next
    case (Some db')
    show ?thesis
    proof (cases "generateJWT hmac \<lparr>sub = the lk, plan = ?p, iat = now_ms, exp = now + default_duration ?p\<rparr>
                    (JWT_SECRET e)")
      case None
      with assms Some show ?thesis by (simp add: validate_def Let_def)
    next
      case tok: (Some t)
      with assms Some show ?thesis by (simp add: validate_def Let_def)
    qed
  qed
  moreover have "u_license_key ?r = the lk" by simp
  ultimately show ?thesis by blast
qed



text \<open>
  Both operations keep the ids of \<open>users\<close> distinct, so the assumption of the next
  theorem holds along every run that starts with distinct ids.
\<close>

lemma insert_user_ids:
  assumes "insert_user r db = Some db'" and "distinct (map u_id (users db))"
  shows "distinct (map u_id (users db'))"
  using assms by (auto simp: insert_user_def split: if_splits)

lemma renew_user_ids:
  assumes "renew_user uid p x db = Some db'"
  shows "map u_id (users db') = map u_id (users db)"
proof -
  have "map u_id (map (\<lambda>u. if u_id u = uid then f u else u) xs) = map u_id xs"
    if "\<And>u. u_id (f u) = u_id u" for f and xs :: "user list"
    using that by (induction xs) auto
  with assms show ?thesis
    by (auto simp: renew_user_def Let_def split: if_splits)
qed

lemma webhook_ids:
  assumes "distinct (map u_id (users db))"
  shows "distinct (map u_id (users (processWebhookAsync uuid random now ty data db)))"
proof (cases data)
  case None
  with assms show ?thesis by (simp add: processWebhookAsync_def)
next
  case (Some wd)
  let ?mail = "js_or (wd_customer_dot_email wd) (wd_customer_email wd)"
  let ?p0 = "js_or (wd_product_id wd) (wd_lines0_product_id wd)"
  let ?pid = "if \<not> truthy ?p0 \<and> truthy (wd_subscription_id wd)
              then Some ''pdt_0NWZwZB3eia1vz1BCOw6C'' else ?p0"
  have st: "(u_id \<circ> (\<lambda>u. if u_email u = m then u\<lparr>u_status := ''expired''\<rparr> else u)) = u_id" for m
    by (auto simp: fun_eq_iff)
  show ?thesis
  proof (cases "ty \<in> Some ` failure_types")
    case True
    with Some assms show ?thesis
      by (simp add: processWebhookAsync_def Let_def st)
  next
    case nf: False
    show ?thesis
    proof (cases "ty \<in> Some ` success_types \<and> truthy ?mail \<and> truthy ?pid")
      case False
      with Some nf assms show ?thesis
        by (auto simp: processWebhookAsync_def Let_def)
    next
      case True
      show ?thesis
      proof (cases "PRODUCTS (the ?pid)")
        case None
        with Some nf True assms show ?thesis
          by (simp add: processWebhookAsync_def Let_def)
      next
        case pc: (Some productConfig)
        show ?thesis
        proof (cases "find (\<lambda>u. u_email u = the ?mail) (users db)")
          case None
          have "distinct (map u_id (users (case insert_user r db of None \<Rightarrow> db | Some db' \<Rightarrow> db')))" for r
            using assms by (auto split: option.splits dest: insert_user_ids)
          with Some nf True pc None show ?thesis
            by (simp add: processWebhookAsync_def Let_def)
        next
          case ex: (Some existingUser)
          have "distinct (map u_id (users (case renew_user i p x db of None \<Rightarrow> db | Some db' \<Rightarrow> db')))"
            for i p x
            using assms by (auto split: option.splits dest: renew_user_ids)
          with Some nf True pc ex show ?thesis
            by (simp add: processWebhookAsync_def Let_def)
        qed
      qed
    qed
  qed
qed

lemma validate_ids:
  assumes "distinct (map u_id (users db))"
  shows "distinct (map u_id (users (snd (validate hmac dodo_validate dodo_license e uuid now now_ms req db))))"
proof (cases req)
  case BadJson
  with assms show ?thesis by (simp add: validate_def)
next
  case (Json lk)
  show ?thesis
  proof (cases "truthy lk \<and> find (\<lambda>u. u_license_key u = the lk) (users db) = None
                 \<and> dodo_validate (the lk) = Got True \<and> (\<exists>l. dodo_license (the lk) = Got l)")
    case True
    then obtain l where l: "dodo_license (the lk) = Got l" by blast
    from validate_new_key [of lk db dodo_validate dodo_license l hmac e uuid now now_ms] True l
    obtain r where r: "u_license_key r = the lk"
      "snd (validate hmac dodo_validate dodo_license e uuid now now_ms (Json lk) db)
         = (case upsert_user r db of None \<Rightarrow> db | Some db' \<Rightarrow> db')"
      by auto
    have "upsert_user r db = insert_user r db"
      using upsert_new_key [of r db] True r(1) by simp
    with r(2) Json assms show ?thesis
      by (auto split: option.splits dest: insert_user_ids)
  next
    case False
    have "snd (validate hmac dodo_validate dodo_license e uuid now now_ms (Json lk) db) = db"
    proof (cases "truthy lk")
      case nt: False
      then show ?thesis by (simp add: validate_def)
    next
      case t: True
      show ?thesis
      proof (cases "find (\<lambda>u. u_license_key u = the lk) (users db)")
        case (Some local)
        with t show ?thesis by (simp add: validate_def Let_def split: option.splits)
      next
        case None
        show ?thesis
        proof (cases "dodo_validate (the lk)")
          case Threw
          with t None show ?thesis by (simp add: validate_def Let_def)
        next
          case (Got ok)
          show ?thesis
          proof (cases ok)
            case f: False
            with t None Got show ?thesis by (simp add: validate_def Let_def)
          next
            case okT: True
            with False t None Got have "dodo_license (the lk) = Threw"
              by (cases "dodo_license (the lk)") auto
            with t None Got okT show ?thesis by (simp add: validate_def Let_def)
          qed
        qed
      qed
    qed
    with Json assms show ?thesis by simp
  qed
qed



subsection \<open>Webhook idempotency\<close>








subsection \<open>The credential\<close>

text \<open>
  What does hold of every minted credential: it has exactly three segments, the first two
  are the \<open>btoa\<close> of the fixed header and of the payload, and the third contains none
  of \<open>+\<close>, \<open>/\<close> and \<open>=\<close>.
\<close>

lemma b64char_in: "b64char n \<in> set b64chars"
proof -
  have "nat (n mod 64) < length b64chars"
    by (simp add: b64chars_def nat_less_iff)
  then show ?thesis unfolding b64char_def by (rule nth_mem)
qed

lemma btoa_alphabet: "set (btoa s) \<subseteq> insert CHR ''='' (set b64chars)"
  by (induction s rule: btoa.induct) (auto simp: Let_def b64char_in)

lemma dot_not_b64: "CHR ''.'' \<notin> insert CHR ''='' (set b64chars)"
  by (simp add: b64chars_def)

lemma btoa_no_dot: "CHR ''.'' \<notin> set (btoa s)"
  using btoa_alphabet [of s] dot_not_b64 by blast

lemma split_on_single: "c \<notin> set s \<Longrightarrow> split_on c s = [s]"
  by (induction s) auto

lemma generateJWT_segments:
  assumes "generateJWT hmac p secret = Some tok"
  shows "\<exists>sg. split_on CHR ''.'' tok = [btoa stringify_header, btoa (stringify_payload p), sg]
              \<and> CHR ''+'' \<notin> set sg \<and> CHR ''/'' \<notin> set sg \<and> CHR ''='' \<notin> set sg"
proof -
  define sg where "sg = remove_all CHR ''='' (replace_all CHR ''/'' CHR ''_''
                     (replace_all CHR ''+'' CHR ''-'' (btoa (hmac (utf8_encode secret)
                        (utf8_encode (btoa stringify_header @ ''.'' @ btoa (stringify_payload p)))))))"
  from assms have tok: "tok = btoa stringify_header @ CHR ''.'' # btoa (stringify_payload p) @ CHR ''.'' # sg"
    by (auto simp: generateJWT_def Let_def sg_def split: if_splits)
  have clean: "CHR ''+'' \<notin> set sg" "CHR ''/'' \<notin> set sg" "CHR ''='' \<notin> set sg"
    by (auto simp: sg_def remove_all_def replace_all_def)
  have "set sg \<subseteq> insert CHR ''-'' (insert CHR ''_'' (insert CHR ''='' (set b64chars)))"
    using btoa_alphabet [of "hmac (utf8_encode secret)
                        (utf8_encode (btoa stringify_header @ ''.'' @ btoa (stringify_payload p)))"]
    by (auto simp: sg_def remove_all_def replace_all_def)
  then have nd: "CHR ''.'' \<notin> set sg"
    using dot_not_b64 by auto
  have "split_on CHR ''.'' tok = [btoa stringify_header, btoa (stringify_payload p), sg]"
    unfolding tok
    by (simp add: split_on_segment btoa_no_dot split_on_single nd)
  with clean show ?thesis by blast
qed

text \<open>
  \<open>atob\<close> undoes \<open>btoa\<close>, with or without the padding.
\<close>

lemma b64index_table: "list_all (\<lambda>i. b64index (b64chars ! nat i) = Some i) [0..63]"
  by code_simp

lemma b64index_b64char: "b64index (b64char n) = Some (n mod 64)"
proof -
  have "n mod 64 \<in> set [0..63]" by simp
  with b64index_table have "b64index (b64chars ! nat (n mod 64)) = Some (n mod 64)"
    unfolding list_all_iff by blast
  then show ?thesis by (simp add: b64char_def)
qed

lemma b64char_not_pad: "b64char n \<noteq> CHR ''=''"
  using b64index_b64char [of n] by (auto simp: b64index_def)

lemma of_char_bounds: "0 \<le> (of_char c :: int)" "(of_char c :: int) < 256"
proof -
  have "(of_char c :: int) = int (of_char c)" by (simp add: of_char_def)
  moreover have "(of_char c :: nat) < 256" by simp
  ultimately show "0 \<le> (of_char c :: int)" "(of_char c :: int) < 256" by simp_all
qed

lemma base64_digits:
  fixes n :: int
  assumes "0 \<le> n" "n < 16777216"
  shows "(n div 262144) mod 64 * 64 + (n div 4096) mod 64 = n div 4096"
    and "((n div 262144) mod 64 * 64 + (n div 4096) mod 64) * 64 + (n div 64) mod 64 = n div 64"
    and "(((n div 262144) mod 64 * 64 + (n div 4096) mod 64) * 64 + (n div 64) mod 64) * 64 + n mod 64 = n"
proof -
  define d1 m0 d2 m1 d3 m2 where "d1 = n div 64" and "m0 = n mod 64" and "d2 = n div 4096"
    and "m1 = (n div 64) mod 64" and "d3 = n div 262144" and "m2 = (n div 4096) mod 64"
  have lo: "0 \<le> n div 262144" using assms(1) by (simp add: pos_imp_zdiv_nonneg_iff)
  have "n div 262144 \<le> 16777215 div 262144" using assms(2) by (intro zdiv_mono1) auto
  then have hi: "n div 262144 < 64" by simp
  have q3: "(n div 262144) mod 64 = d3"
    unfolding d3_def using lo hi by (rule mod_pos_pos_trivial)
  have a: "n div 4096 = (n div 64) div 64" using zdiv_zmult2_eq [of 64 n 64] by simp
  have b: "n div 262144 = (n div 4096) div 64" using zdiv_zmult2_eq [of 64 n 4096] by simp
  have s1: "n = d1 * 64 + m0" unfolding d1_def m0_def by simp
  have s2: "d1 = d2 * 64 + m1" unfolding d1_def d2_def m1_def a by simp
  have s3: "d2 = d3 * 64 + m2" unfolding d2_def d3_def m2_def b by simp
  have "d3 * 64 + m2 = d2" "(d3 * 64 + m2) * 64 + m1 = d1" "((d3 * 64 + m2) * 64 + m1) * 64 + m0 = n"
    using s1 s2 s3 by simp_all
  then show "(n div 262144) mod 64 * 64 + (n div 4096) mod 64 = n div 4096"
    and "((n div 262144) mod 64 * 64 + (n div 4096) mod 64) * 64 + (n div 64) mod 64 = n div 64"
    and "(((n div 262144) mod 64 * 64 + (n div 4096) mod 64) * 64 + (n div 64) mod 64) * 64 + n mod 64 = n"
    unfolding q3 by (simp_all only: d1_def m0_def d2_def m1_def d3_def m2_def)
qed

lemma bytes3:
  fixes a b c :: int
  assumes "0 \<le> a" "a < 256" "0 \<le> b" "b < 256" "0 \<le> c" "c < 256"
  shows "(a * 65536 + b * 256 + c) div 65536 = a"
    and "((a * 65536 + b * 256 + c) div 256) mod 256 = b"
    and "(a * 65536 + b * 256 + c) mod 256 = c"
    and "0 \<le> a * 65536 + b * 256 + c" and "a * 65536 + b * 256 + c < 16777216"
proof -
  have r1: "0 \<le> b * 256 + c" "b * 256 + c < 65536" using assms by linarith+
  show "(a * 65536 + b * 256 + c) div 65536 = a"
    by (rule int_div_pos_eq [where r = "b * 256 + c"]) (use r1 in simp_all)
  have d: "(a * 65536 + b * 256 + c) div 256 = a * 256 + b"
    by (rule int_div_pos_eq [where r = c]) (use assms in simp_all)
  show "((a * 65536 + b * 256 + c) div 256) mod 256 = b"
    unfolding d by (rule int_mod_pos_eq [where q = a]) (use assms in simp_all)
  show "(a * 65536 + b * 256 + c) mod 256 = c"
    by (rule int_mod_pos_eq [where q = "a * 256 + b"]) (use assms in simp_all)
  show "0 \<le> a * 65536 + b * 256 + c" "a * 65536 + b * 256 + c < 16777216"
    using assms by linarith+
qed

lemma char_of_byte: "char_of (of_char c :: int) = c"
  by simp

lemma decode_group3:
  "b64decode (((of_char a * 65536 + of_char b * 256 + of_char c) div 262144) mod 64
             # ((of_char a * 65536 + of_char b * 256 + of_char c) div 4096) mod 64
             # ((of_char a * 65536 + of_char b * 256 + of_char c) div 64) mod 64
             # (of_char a * 65536 + of_char b * 256 + of_char c) mod 64 # is)
     = a # b # c # b64decode is"
proof -
  let ?n = "of_char a * 65536 + of_char b * 256 + of_char c :: int"
  note bs = bytes3 [OF of_char_bounds(1) [of a] of_char_bounds(2) [of a] of_char_bounds(1) [of b]
                      of_char_bounds(2) [of b] of_char_bounds(1) [of c] of_char_bounds(2) [of c]]
  have full: "(((?n div 262144) mod 64 * 64 + (?n div 4096) mod 64) * 64 + (?n div 64) mod 64) * 64
                + ?n mod 64 = ?n"
    by (rule base64_digits(3) [OF bs(4) bs(5)])
  have c1: "char_of (?n div 65536) = a" unfolding bs(1) by simp
  have "char_of (?n div 256) = char_of ((?n div 256) mod 256)" by (simp only: char_of_mod_256)
  then have c2: "char_of (?n div 256) = b" by (simp only: bs(2) char_of_byte)
  have "char_of ?n = char_of (?n mod 256)" by (simp only: char_of_mod_256)
  then have c3: "char_of ?n = c" by (simp only: bs(3) char_of_byte)
  show ?thesis
    by (simp only: b64decode.simps Let_def full c1 c2 c3)
qed


lemma decode_group1:
  "b64decode [((of_char a * 65536) div 262144) mod 64, ((of_char a * 65536) div 4096) mod 64] = [a]"
proof -
  let ?a = "of_char a :: int"
  let ?n = "?a * 65536"
  have n: "0 \<le> ?n" "?n < 16777216" using of_char_bounds [of a] by linarith+
  have d: "?n div 4096 = ?a * 16"
    by (rule int_div_pos_eq [where r = 0]) simp_all
  have e: "(?n div 262144) mod 64 * 64 + (?n div 4096) mod 64 = ?a * 16"
    unfolding d [symmetric] by (rule base64_digits(1) [OF n])
  have q: "(?a * 16) div 16 = ?a" by simp
  show ?thesis by (simp only: b64decode.simps e q char_of_byte)
qed

lemma decode_group2:
  "b64decode [((of_char a * 65536 + of_char b * 256) div 262144) mod 64,
              ((of_char a * 65536 + of_char b * 256) div 4096) mod 64,
              ((of_char a * 65536 + of_char b * 256) div 64) mod 64] = [a, b]"
proof -
  let ?a = "of_char a :: int" and ?b = "of_char b :: int"
  let ?n = "?a * 65536 + ?b * 256"
  have n: "0 \<le> ?n" "?n < 16777216" using of_char_bounds [of a] of_char_bounds [of b] by linarith+
  have d: "?n div 64 = ?a * 1024 + ?b * 4"
    by (rule int_div_pos_eq [where r = 0]) simp_all
  have m: "((?n div 262144) mod 64 * 64 + (?n div 4096) mod 64) * 64 + (?n div 64) mod 64 = ?a * 1024 + ?b * 4"
    unfolding d [symmetric] by (rule base64_digits(2) [OF n])
  have r: "0 \<le> ?b * 4" "?b * 4 < 1024" using of_char_bounds [of b] by linarith+
  have h: "(?a * 1024 + ?b * 4) div 1024 = ?a"
    by (rule int_div_pos_eq [where r = "?b * 4"]) (use r in simp_all)
  have l: "(?a * 1024 + ?b * 4) div 4 = ?a * 256 + ?b"
    by (rule int_div_pos_eq [where r = 0]) simp_all
  have lm: "(?a * 256 + ?b) mod 256 = ?b"
    by (rule int_mod_pos_eq [where q = ?a]) (use of_char_bounds [of b] in simp_all)
  have "char_of (?a * 256 + ?b) = char_of ((?a * 256 + ?b) mod 256)" by (simp only: char_of_mod_256)
  also have "\<dots> = char_of ?b" by (simp only: lm)
  also have "\<dots> = b" by simp
  finally have c2: "char_of (?a * 256 + ?b) = b" .
  show ?thesis
    by (simp only: b64decode.simps Let_def m h l c2 char_of_byte)
qed

lemma decode_core:
  "map_option b64decode (those (map b64index (remove_all CHR ''='' (btoa s)))) = Some s"
proof (induction s rule: btoa.induct)
  case 1
  show ?case by (simp add: remove_all_def)
next
  case (2 a)
  show ?case
    using decode_group1 [of a]
    by (simp add: remove_all_def Let_def b64char_not_pad b64index_b64char)
next
  case (3 a b)
  show ?case
    using decode_group2 [of a b]
    by (simp add: remove_all_def Let_def b64char_not_pad b64index_b64char)
next
  case (4 a b c rest)
  from 4 obtain idx where idx: "those (map b64index (remove_all CHR ''='' (btoa rest))) = Some idx"
    "b64decode idx = rest"
    by (auto simp: map_option_case split: option.splits)
  let ?n = "of_char a * 65536 + of_char b * 256 + of_char c :: int"
  have "remove_all CHR ''='' (btoa (a # b # c # rest))
          = b64char (?n div 262144) # b64char (?n div 4096) # b64char (?n div 64) # b64char ?n
            # remove_all CHR ''='' (btoa rest)"
    by (simp add: remove_all_def Let_def b64char_not_pad)
  then have "those (map b64index (remove_all CHR ''='' (btoa (a # b # c # rest))))
          = Some ((?n div 262144) mod 64 # (?n div 4096) mod 64 # (?n div 64) mod 64 # ?n mod 64 # idx)"
    using idx(1) by (simp add: b64index_b64char)
  then show ?case
    using decode_group3 [of a b c idx] idx(2) by simp
qed

lemma alphabet_table: "list_all (\<lambda>c. \<not> ascii_whitespace c) (CHR ''='' # b64chars)"
  by code_simp

lemma alphabet_no_ws: "c \<in> insert CHR ''='' (set b64chars) \<Longrightarrow> \<not> ascii_whitespace c"
  using alphabet_table unfolding list_all_iff by auto

lemma btoa_no_ws: "filter (\<lambda>c. \<not> ascii_whitespace c) (btoa s) = btoa s"
proof -
  have "\<forall>c \<in> set (btoa s). \<not> ascii_whitespace c"
    using btoa_alphabet [of s] alphabet_no_ws by blast
  then show ?thesis by (simp add: filter_id_conv)
qed

lemma core_no_ws:
  "filter (\<lambda>c. \<not> ascii_whitespace c) (remove_all CHR ''='' (btoa s)) = remove_all CHR ''='' (btoa s)"
proof -
  have "set (remove_all CHR ''='' (btoa s)) \<subseteq> set (btoa s)" by (auto simp: remove_all_def)
  then have "\<forall>c \<in> set (remove_all CHR ''='' (btoa s)). \<not> ascii_whitespace c"
    using btoa_alphabet [of s] alphabet_no_ws by blast
  then show ?thesis by (simp add: filter_id_conv)
qed

lemma strip_padding_clean: "CHR ''='' \<notin> set t \<Longrightarrow> strip_padding t = t"
proof (cases "t = []")
  case True
  then show ?thesis by (simp add: strip_padding_def)
next
  case False
  assume "CHR ''='' \<notin> set t"
  with False have "last t \<noteq> CHR ''=''" by (metis last_in_set)
  then show ?thesis by (simp add: strip_padding_def)
qed

lemma length_core: "length (remove_all CHR ''='' (btoa s)) mod 4 \<noteq> 1"
proof -
  have "length (remove_all CHR ''='' (btoa s)) mod 4 \<in> {0, 2, 3}"
  proof (induction s rule: btoa.induct)
    case 1
    show ?case by (simp add: remove_all_def)
  next
    case (2 a)
    show ?case by (simp add: remove_all_def Let_def b64char_not_pad)
  next
    case (3 a b)
    show ?case by (simp add: remove_all_def Let_def b64char_not_pad)
  next
    case (4 a b c rest)
    have "length (remove_all CHR ''='' (btoa (a # b # c # rest)))
            = length (remove_all CHR ''='' (btoa rest)) + 4"
      by (simp add: remove_all_def Let_def b64char_not_pad)
    then have "length (remove_all CHR ''='' (btoa (a # b # c # rest))) mod 4
                 = length (remove_all CHR ''='' (btoa rest)) mod 4"
      by (simp only: mod_add_self2)
    with 4 show ?case by (simp only:)
  qed
  then show ?thesis by auto
qed

lemma atob_core: "atob (remove_all CHR ''='' (btoa s)) = Some s"
proof -
  have "CHR ''='' \<notin> set (remove_all CHR ''='' (btoa s))" by (simp add: remove_all_def)
  then have sp: "strip_padding (remove_all CHR ''='' (btoa s)) = remove_all CHR ''='' (btoa s)"
    by (rule strip_padding_clean)
  show ?thesis
    unfolding atob_def core_no_ws sp Let_def
    using length_core [of s] decode_core [of s] by simp
qed

lemma btoa_shape:
  "length (btoa s) mod 4 = 0
   \<and> (btoa s = remove_all CHR ''='' (btoa s)
       \<or> btoa s = remove_all CHR ''='' (btoa s) @ [CHR ''='']
       \<or> btoa s = remove_all CHR ''='' (btoa s) @ [CHR ''='', CHR ''=''])"
  by (induction s rule: btoa.induct) (auto simp: remove_all_def Let_def b64char_not_pad)

lemma strip_padding_btoa: "strip_padding (btoa s) = remove_all CHR ''='' (btoa s)"
proof -
  define t where "t = remove_all CHR ''='' (btoa s)"
  have clean: "CHR ''='' \<notin> set t" by (simp add: t_def remove_all_def)
  then have lt: "t \<noteq> [] \<Longrightarrow> last t \<noteq> CHR ''=''" by (metis last_in_set)
  from btoa_shape [of s] have len: "length (btoa s) mod 4 = 0" by simp
  from btoa_shape [of s] consider "btoa s = t" | "btoa s = t @ [CHR ''='']"
    | "btoa s = t @ [CHR ''='', CHR ''='']" unfolding t_def by blast
  then have "strip_padding (btoa s) = t"
  proof cases
    case 1
    with clean show ?thesis by (simp add: strip_padding_clean)
  next
    case 2
    with len lt show ?thesis by (auto simp: strip_padding_def)
  next
    case 3
    with len lt show ?thesis by (auto simp: strip_padding_def butlast_append)
  qed
  then show ?thesis by (simp add: t_def)
qed



lemma atob_btoa: "atob (btoa s) = Some s"
  using length_core [of s] decode_core [of s]
  by (simp add: atob_def btoa_no_ws strip_padding_btoa)

lemma url_roundtrip:
  assumes "CHR ''-'' \<notin> set y" "CHR ''_'' \<notin> set y"
  shows "replace_all CHR ''_'' CHR ''/'' (replace_all CHR ''-'' CHR ''+''
           (remove_all CHR ''='' (replace_all CHR ''/'' CHR ''_'' (replace_all CHR ''+'' CHR ''-'' y))))
         = remove_all CHR ''='' y"
  using assms by (induction y) (auto simp: replace_all_def remove_all_def)

lemma btoa_no_url_chars: "CHR ''-'' \<notin> set (btoa s)" "CHR ''_'' \<notin> set (btoa s)"
  using btoa_alphabet [of s] by (auto simp: b64chars_def)

text \<open>
  The parts of a minted credential, as the two verifiers see them: three segments, a
  signature segment that decodes to the HMAC of the first two, and a payload segment that
  decodes to the JSON text of the payload.
\<close>

lemma minted_token_parts:
  assumes "generateJWT hmac p secret = Some tok"
  shows "\<exists>b sg. split_on CHR ''.'' tok = [btoa stringify_header, b, sg]
           \<and> utf8_encode secret \<noteq> []
           \<and> atob (replace_all CHR ''_'' CHR ''/'' (replace_all CHR ''-'' CHR ''+'' sg))
               = Some (hmac (utf8_encode secret) (utf8_encode (btoa stringify_header @ ''.'' @ b)))
           \<and> atob b = Some (stringify_payload p)
           \<and> replace_all CHR ''_'' CHR ''/'' (replace_all CHR ''-'' CHR ''+'' b) = b"
proof -
  define h b where "h = btoa stringify_header" and "b = btoa (stringify_payload p)"
  define sig where "sig = hmac (utf8_encode secret) (utf8_encode (h @ ''.'' @ b))"
  define sg where "sg = remove_all CHR ''='' (replace_all CHR ''/'' CHR ''_''
                          (replace_all CHR ''+'' CHR ''-'' (btoa sig)))"
  from assms have s: "utf8_encode secret \<noteq> []" and tok: "tok = h @ CHR ''.'' # b @ CHR ''.'' # sg"
    by (auto simp: generateJWT_def Let_def h_def b_def sig_def sg_def split: if_splits)
  have "set sg \<subseteq> insert CHR ''-'' (insert CHR ''_'' (insert CHR ''='' (set b64chars)))"
    using btoa_alphabet [of sig] by (auto simp: sg_def remove_all_def replace_all_def)
  then have nd: "CHR ''.'' \<notin> set sg" using dot_not_b64 by auto
  have hb: "CHR ''.'' \<notin> set h" "CHR ''.'' \<notin> set b"
    by (simp_all add: h_def b_def btoa_no_dot)
  have sp: "split_on CHR ''.'' tok = [h, b, sg]"
    unfolding tok by (simp add: split_on_segment hb split_on_single nd)
  have "replace_all CHR ''_'' CHR ''/'' (replace_all CHR ''-'' CHR ''+'' sg) = remove_all CHR ''='' (btoa sig)"
    unfolding sg_def by (rule url_roundtrip [OF btoa_no_url_chars])
  then have sgd: "atob (replace_all CHR ''_'' CHR ''/'' (replace_all CHR ''-'' CHR ''+'' sg)) = Some sig"
    by (simp add: atob_core)
  have bd: "atob b = Some (stringify_payload p)"
    by (simp add: b_def atob_btoa)
  have bu: "replace_all CHR ''_'' CHR ''/'' (replace_all CHR ''-'' CHR ''+'' b) = b"
    using bd by (rule atob_Some_no_url_chars)
  show ?thesis
    using sp s sgd bd bu unfolding h_def sig_def by blast
qed

text \<open>
  A credential minted by \<open>generateJWT\<close> is accepted by \<open>verifyJWT\<close> of utils.ts under
  the same secret, whatever its \<open>exp\<close> and whatever the time, as soon as \<open>JSON.parse\<close>
  reads back what \<open>JSON.stringify\<close> wrote; the verifier of auth.ts accepts it only
  while \<open>exp\<close> is after the clock.
\<close>

lemma minted_token_accepted:
  assumes "generateJWT hmac p secret = Some tok"
      and "parse (stringify_payload p) = Some p"
  shows "verifyJWT hmac parse tok secret = Some p"
  using minted_token_parts [OF assms(1)] assms(2)
  by (auto simp: verifyJWT_def)

lemma header_constant: "btoa stringify_header = ''eyJhbGciOiJIUzI1NiIsInR5cCI6IkpXVCJ9''"
  by code_simp

lemma minted_token_auth:
  assumes "generateJWT hmac p secret = Some tok"
      and "parse (stringify_payload p) = Some p"
  shows "auth_verifyJWT hmac parse now tok secret = (if exp p \<le> now then None else Some p)"
  using minted_token_parts [OF assms(1)] assms(2)
  by (auto simp: auth_verifyJWT_def jwtVerify_def header_constant)




lemma padded_body:
  "btoa (stringify_payload padded_payload)
     = ''eyJzdWIiOiJBS0gtWUVBUkxZLUFCQ0QtRUZHSC1JSktMIiwicGxhbiI6InllYXJseSIsImlhdCI6MTc2MjA0MTYwMDAwMCwiZXhwIjoxNzkzNTc3NjAwfQ==''"
  by code_simp

text \<open>
  Claim C9 asks that each of the three segments be base64url without padding.
  \<open>generateJWT\<close> does that to the signature segment only; the header and the payload
  are the output of \<open>btoa\<close> as it is. For the payload below the minted credential
  starts with the fixed header, and its second segment ends in \<open>==\<close>, whatever the
  HMAC function is.
\<close>

theorem generateJWT_payload_segment_padded:
  "\<exists>tok. generateJWT hmac padded_payload ''s3cret'' = Some tok
         \<and> take 2 (split_on CHR ''.'' tok)
             = [''eyJhbGciOiJIUzI1NiIsInR5cCI6IkpXVCJ9'',
                ''eyJzdWIiOiJBS0gtWUVBUkxZLUFCQ0QtRUZHSC1JSktMIiwicGxhbiI6InllYXJseSIsImlhdCI6MTc2MjA0MTYwMDAwMCwiZXhwIjoxNzkzNTc3NjAwfQ=='']
         \<and> CHR ''='' \<in> set (split_on CHR ''.'' tok ! 1)"
proof -
  let ?h = "''eyJhbGciOiJIUzI1NiIsInR5cCI6IkpXVCJ9''"
  let ?b = "''eyJzdWIiOiJBS0gtWUVBUkxZLUFCQ0QtRUZHSC1JSktMIiwicGxhbiI6InllYXJseSIsImlhdCI6MTc2MjA0MTYwMDAwMCwiZXhwIjoxNzkzNTc3NjAwfQ==''"
  have h: "btoa stringify_header = ?h" by code_simp
  have b: "btoa (stringify_payload padded_payload) = ?b" by (rule padded_body)
  have s: "utf8_encode ''s3cret'' \<noteq> []" by (simp add: utf8_encode_empty)
  define sg where "sg = remove_all CHR ''='' (replace_all CHR ''/'' CHR ''_''
                     (replace_all CHR ''+'' CHR ''-'' (btoa (hmac (utf8_encode ''s3cret'')
                        (utf8_encode (?h @ ''.'' @ ?b))))))"
  have tok: "generateJWT hmac padded_payload ''s3cret'' = Some (?h @ CHR ''.'' # ?b @ CHR ''.'' # sg)"
    using s by (simp add: generateJWT_def h b sg_def Let_def)
  have sp1: "split_on CHR ''.'' (?h @ CHR ''.'' # ?b @ CHR ''.'' # sg) = ?h # split_on CHR ''.'' (?b @ CHR ''.'' # sg)"
    by (rule split_on_segment) simp
  have sp2: "split_on CHR ''.'' (?b @ CHR ''.'' # sg) = ?b # split_on CHR ''.'' sg"
    by (rule split_on_segment) simp
  show ?thesis
    unfolding tok sp1 sp2 by simp
qed

theorem generateJWT_payload_segment_padded_witness:
  "CHR ''='' \<in> set (split_on CHR ''.'' (the (generateJWT toy_hmac padded_payload ''s3cret'')) ! 1)"
  using generateJWT_payload_segment_padded [of toy_hmac] by auto

end
